theory Spec2Isabelle
  imports Main "HOL-Library.Sublist"
begin

section \<open>Python strings\<close>

text \<open>
  A Python \<open>str\<close> is a sequence of Unicode code points, and \<open>len\<close>, slicing and the
  \<open>in\<close> test count code points. The receipts mix ASCII with Ethiopic script, so a
  string is modelled as the list of its code points. ASCII literals are written with
  \<open>ascii\<close>; Ethiopic literals are written as their code points (U+1200 .. U+137F).
\<close>

type_synonym str = "nat list"

definition ascii :: "string \<Rightarrow> str" where
  "ascii s = map of_char s"

text \<open>
  \<open>str.lower()\<close>: the ASCII capitals are mapped to the small letters. Ethiopic has no
  case, so on the alphabet of the receipts (ASCII and Ethiopic) this is what Python
  computes.
\<close>

definition lower_cp :: "nat \<Rightarrow> nat" where
  "lower_cp c = (if 65 \<le> c \<and> c \<le> 90 then c + 32 else c)"

definition py_lower :: "str \<Rightarrow> str" where
  "py_lower s = map lower_cp s"

text \<open>\<open>sub in s\<close>: \<open>sub\<close> occurs in \<open>s\<close> as a contiguous run.\<close>

fun contains :: "str \<Rightarrow> str \<Rightarrow> bool" where
  "contains sub [] = (sub = [])"
| "contains sub (c # cs) = (prefix sub (c # cs) \<or> contains sub cs)"




section \<open>Calendar converter\<close>

definition ETHIOPIAN_MONTHS_LIST :: "str list" where
  "ETHIOPIAN_MONTHS_LIST =
    [ascii ''Meskerem'', ascii ''Tikimt'', ascii ''Hidar'', ascii ''Tahsas'',
     ascii ''Tir'', ascii ''Yekatit'', ascii ''Megabit'', ascii ''Miyazya'',
     ascii ''Ginbot'', ascii ''Sene'', ascii ''Hamle'', ascii ''Nehase'',
     ascii ''Pagume'']"











section \<open>String methods\<close>

text \<open>
  White space as \<open>str.isspace\<close>, \<open>str.strip\<close>, \<open>str.split\<close> and the pattern
  \<open>\s\<close> see it (all Unicode white space characters).
\<close>

definition is_space :: "nat \<Rightarrow> bool" where
  "is_space c = ((9 \<le> c \<and> c \<le> 13) \<or> (28 \<le> c \<and> c \<le> 32) \<or> c = 133 \<or> c = 160 \<or>
     c = 5760 \<or> (8192 \<le> c \<and> c \<le> 8202) \<or> c = 8232 \<or> c = 8233 \<or> c = 8239 \<or>
     c = 8287 \<or> c = 12288)"

definition py_strip :: "str \<Rightarrow> str" where
  "py_strip s = rev (dropWhile is_space (rev (dropWhile is_space s)))"

definition upper_cp :: "nat \<Rightarrow> nat" where
  "upper_cp c = (if 97 \<le> c \<and> c \<le> 122 then c - 32 else c)"

definition py_upper :: "str \<Rightarrow> str" where
  "py_upper s = map upper_cp s"

text \<open>\<open>s.split(sep)\<close> for a separator of one character: always at least one part.\<close>

fun split_on :: "nat \<Rightarrow> str \<Rightarrow> str list" where
  "split_on sep [] = [[]]"
| "split_on sep (c # cs) =
     (if c = sep then [] # split_on sep cs
      else (case split_on sep cs of
              p # ps \<Rightarrow> (c # p) # ps
            | [] \<Rightarrow> [[c]]))"

text \<open>\<open>s.split()\<close>: the runs of characters that are not white space.\<close>

fun split_ws :: "str \<Rightarrow> str list" where
  "split_ws [] = []"
| "split_ws (c # cs) =
     (if is_space c then split_ws cs
      else (case cs of
              [] \<Rightarrow> [[c]]
            | d # ds \<Rightarrow>
                if is_space d then [c] # split_ws cs
                else (case split_ws cs of
                        p # ps \<Rightarrow> (c # p) # ps
                      | [] \<Rightarrow> [[c]])))"

text \<open>\<open>sep.join(parts)\<close>.\<close>

fun py_join :: "str \<Rightarrow> str list \<Rightarrow> str" where
  "py_join sep [] = []"
| "py_join sep [p] = p"
| "py_join sep (p # q # ps) = p @ sep @ py_join sep (q # ps)"

text \<open>\<open>s[a:b]\<close> for \<open>0 \<le> a\<close> and \<open>0 \<le> b\<close>.\<close>

definition slice :: "str \<Rightarrow> nat \<Rightarrow> nat \<Rightarrow> str" where
  "slice s a b = take (b - a) (drop a s)"


section \<open>Regular expressions\<close>

text \<open>
  The patterns of the extractors are matched by Python's backtracking engine: leftmost
  match, alternatives in order, greedy repetition giving back one character at a time,
  lazy repetition taking one more character at a time. The patterns only repeat single
  character classes, so repetition is modelled for a class. Character classes are
  given for the alphabet of the receipts (ASCII, Ethiopic, Unicode white space).
\<close>

datatype cclass =
    Ch nat
  | Rng nat nat
  | Digit
  | Space
  | Word
  | Dot
  | AnyOf "cclass list"
  | NoneOf "cclass list"

definition is_word :: "nat \<Rightarrow> bool" where
  "is_word c = ((48 \<le> c \<and> c \<le> 57) \<or> (65 \<le> c \<and> c \<le> 90) \<or> (97 \<le> c \<and> c \<le> 122) \<or>
     c = 95 \<or>
     (0x1200 \<le> c \<and> c \<le> 0x137C \<and>
      c \<notin> set [0x1249, 0x124E, 0x124F, 0x1257, 0x1259, 0x125E, 0x125F, 0x1289, 0x128E,
        0x128F, 0x12B1, 0x12B6, 0x12B7, 0x12BF, 0x12C1, 0x12C6, 0x12C7, 0x12D7, 0x1311,
        0x1316, 0x1317, 0x135B, 0x135C, 0x135D, 0x135E, 0x135F, 0x1360, 0x1361, 0x1362,
        0x1363, 0x1364, 0x1365, 0x1366, 0x1367, 0x1368]))"

text \<open>
  \<open>cmatch ic cl c\<close>: the character \<open>c\<close> is in the class \<open>cl\<close>; \<open>ic\<close> is the flag
  \<open>re.IGNORECASE\<close>. \<open>Dot\<close> is \<open>.\<close> without \<open>re.DOTALL\<close>.
\<close>

fun cmatch :: "bool \<Rightarrow> cclass \<Rightarrow> nat \<Rightarrow> bool" where
  "cmatch ic (Ch p) c = (if ic then lower_cp c = lower_cp p else c = p)"
| "cmatch ic (Rng a b) c =
     ((a \<le> c \<and> c \<le> b) \<or>
      (ic \<and> ((a \<le> lower_cp c \<and> lower_cp c \<le> b) \<or> (a \<le> upper_cp c \<and> upper_cp c \<le> b))))"
| "cmatch ic Digit c = (48 \<le> c \<and> c \<le> 57)"
| "cmatch ic Space c = is_space c"
| "cmatch ic Word c = is_word c"
| "cmatch ic Dot c = (c \<noteq> 10)"
| "cmatch ic (AnyOf cls) c = list_ex (\<lambda>cl. cmatch ic cl c) cls"
| "cmatch ic (NoneOf cls) c = (\<not> list_ex (\<lambda>cl. cmatch ic cl c) cls)"

datatype rx =
    Eps
  | Sym cclass
  | Seq rx rx
  | Alt rx rx
  | Star cclass
  | LazyStar cclass
  | Grp nat rx
  | Bol
  | BolM
  | Eol

text \<open>
  \<open>Bol\<close> is \<open>^\<close>, \<open>BolM\<close> is \<open>^\<close> under \<open>re.MULTILINE\<close>, \<open>Eol\<close> is \<open>$\<close> (end of the
  string, or before a newline that ends it).
\<close>

fun lit :: "str \<Rightarrow> rx" where
  "lit [] = Eps"
| "lit [c] = Sym (Ch c)"
| "lit (c # d # cs) = Seq (Sym (Ch c)) (lit (d # cs))"

fun seqs :: "rx list \<Rightarrow> rx" where
  "seqs [] = Eps"
| "seqs [r] = r"
| "seqs (r # q # rs) = Seq r (seqs (q # rs))"

fun alts :: "rx list \<Rightarrow> rx" where
  "alts [] = Eps"
| "alts [r] = r"
| "alts (r # q # rs) = Alt r (alts (q # rs))"

definition Opt :: "rx \<Rightarrow> rx" where
  "Opt r = Alt r Eps"

definition Plus :: "cclass \<Rightarrow> rx" where
  "Plus c = Seq (Sym c) (Star c)"

text \<open>
  The matcher works on the rest of the pattern as a list of items: a pattern still to
  be matched, or the end of a group, which records what the group has consumed.
  It returns the input left after the match and the groups.
\<close>

datatype item = R rx | Close nat str

type_synonym groups = "(nat \<times> str) list"

fun rx_weight :: "rx \<Rightarrow> nat" where
  "rx_weight (Seq a b) = rx_weight a + rx_weight b + 3"
| "rx_weight (Alt a b) = rx_weight a + rx_weight b + 3"
| "rx_weight (Grp n a) = rx_weight a + 3"
| "rx_weight r = 1"

fun item_weight :: "item \<Rightarrow> nat" where
  "item_weight (R r) = rx_weight r + 1"
| "item_weight (Close n s) = 1"

function rmatch :: "bool \<Rightarrow> item list \<Rightarrow> nat option \<Rightarrow> str \<Rightarrow> groups \<Rightarrow> (str \<times> groups) option" where
  "rmatch ic [] prev s g = Some (s, g)"
| "rmatch ic (R Eps # k) prev s g = rmatch ic k prev s g"
| "rmatch ic (R (Sym cl) # k) prev [] g = None"
| "rmatch ic (R (Sym cl) # k) prev (c # cs) g =
     (if cmatch ic cl c then rmatch ic k (Some c) cs g else None)"
| "rmatch ic (R (Seq a b) # k) prev s g = rmatch ic (R a # R b # k) prev s g"
| "rmatch ic (R (Alt a b) # k) prev s g =
     (case rmatch ic (R a # k) prev s g of
        Some m \<Rightarrow> Some m
      | None \<Rightarrow> rmatch ic (R b # k) prev s g)"
| "rmatch ic (R (Star cl) # k) prev [] g = rmatch ic k prev [] g"
| "rmatch ic (R (Star cl) # k) prev (c # cs) g =
     (if cmatch ic cl c
      then (case rmatch ic (R (Star cl) # k) (Some c) cs g of
              Some m \<Rightarrow> Some m
            | None \<Rightarrow> rmatch ic k prev (c # cs) g)
      else rmatch ic k prev (c # cs) g)"
| "rmatch ic (R (LazyStar cl) # k) prev [] g = rmatch ic k prev [] g"
| "rmatch ic (R (LazyStar cl) # k) prev (c # cs) g =
     (case rmatch ic k prev (c # cs) g of
        Some m \<Rightarrow> Some m
      | None \<Rightarrow>
          if cmatch ic cl c then rmatch ic (R (LazyStar cl) # k) (Some c) cs g else None)"
| "rmatch ic (R (Grp n a) # k) prev s g = rmatch ic (R a # Close n s # k) prev s g"
| "rmatch ic (Close n s0 # k) prev s g =
     rmatch ic k prev s ((n, take (length s0 - length s) s0) # g)"
| "rmatch ic (R Bol # k) prev s g = (if prev = None then rmatch ic k prev s g else None)"
| "rmatch ic (R BolM # k) prev s g =
     (if prev = None \<or> prev = Some 10 then rmatch ic k prev s g else None)"
| "rmatch ic (R Eol # k) prev s g =
     (if s = [] \<or> s = [10] then rmatch ic k prev s g else None)"
  by pat_completeness auto
termination
  by (relation "measures [\<lambda>(ic, k, prev, s, g). length s,
                           \<lambda>(ic, k, prev, s, g). sum_list (map item_weight k)]") auto

text \<open>
  A match object: \<open>m.start()\<close>, \<open>m.end()\<close> and the groups (the most recent value of a
  group first).
\<close>

record rmatch_obj =
  m_start :: nat
  m_end :: nat
  m_groups :: groups

definition group :: "rmatch_obj \<Rightarrow> nat \<Rightarrow> str" where
  "group m n = (case map_of (m_groups m) n of Some s \<Rightarrow> s | None \<Rightarrow> [])"

text \<open>\<open>re.match\<close>: a match at the start of the string.\<close>

definition re_match :: "bool \<Rightarrow> rx \<Rightarrow> str \<Rightarrow> rmatch_obj option" where
  "re_match ic r s =
     (case rmatch ic [R r] None s [] of
        None \<Rightarrow> None
      | Some (rest, g) \<Rightarrow>
          Some \<lparr>m_start = 0, m_end = length s - length rest, m_groups = g\<rparr>)"

text \<open>
  \<open>re.search\<close>: the first position from which the pattern matches. \<open>search_from\<close>
  scans the rest \<open>s\<close> of the string, which starts at position \<open>pos\<close> after the
  character \<open>prev\<close>.
\<close>

fun search_from :: "bool \<Rightarrow> rx \<Rightarrow> nat option \<Rightarrow> str \<Rightarrow> nat \<Rightarrow> rmatch_obj option" where
  "search_from ic r prev [] pos =
     (case rmatch ic [R r] prev [] [] of
        Some (rest, g) \<Rightarrow> Some \<lparr>m_start = pos, m_end = pos, m_groups = g\<rparr>
      | None \<Rightarrow> None)"
| "search_from ic r prev (c # cs) pos =
     (case rmatch ic [R r] prev (c # cs) [] of
        Some (rest, g) \<Rightarrow>
          Some \<lparr>m_start = pos, m_end = pos + (length (c # cs) - length rest), m_groups = g\<rparr>
      | None \<Rightarrow> search_from ic r (Some c) cs (Suc pos))"

definition re_search :: "bool \<Rightarrow> rx \<Rightarrow> str \<Rightarrow> rmatch_obj option" where
  "re_search ic r s = search_from ic r None s 0"

text \<open>
  \<open>re.finditer\<close>: the matches from left to right, each search starting where the
  match before ended (\<open>skip\<close> counts the characters of that match still to pass). The
  patterns it is used with match no empty string.
\<close>

fun finditer_from :: "bool \<Rightarrow> rx \<Rightarrow> nat option \<Rightarrow> str \<Rightarrow> nat \<Rightarrow> nat \<Rightarrow> rmatch_obj list" where
  "finditer_from ic r prev [] pos skip = []"
| "finditer_from ic r prev (c # cs) pos skip =
     (if 0 < skip then finditer_from ic r (Some c) cs (Suc pos) (skip - 1)
      else (case rmatch ic [R r] prev (c # cs) [] of
              Some (rest, g) \<Rightarrow>
                \<lparr>m_start = pos, m_end = pos + (length (c # cs) - length rest), m_groups = g\<rparr> #
                finditer_from ic r (Some c) cs (Suc pos) (length (c # cs) - length rest - 1)
            | None \<Rightarrow> finditer_from ic r (Some c) cs (Suc pos) 0))"

definition re_finditer :: "bool \<Rightarrow> rx \<Rightarrow> str \<Rightarrow> rmatch_obj list" where
  "re_finditer ic r s = finditer_from ic r None s 0 0"

text \<open>\<open>re.findall\<close> for a pattern without groups: the matched strings.\<close>

definition re_findall :: "bool \<Rightarrow> rx \<Rightarrow> str \<Rightarrow> str list" where
  "re_findall ic r s = map (\<lambda>m. slice s (m_start m) (m_end m)) (re_finditer ic r s)"

text \<open>
  \<open>re.sub(pattern, repl, s)\<close> for a pattern that matches no empty string and a
  replacement without group references.
\<close>

fun sub_from :: "bool \<Rightarrow> rx \<Rightarrow> str \<Rightarrow> nat option \<Rightarrow> str \<Rightarrow> nat \<Rightarrow> str" where
  "sub_from ic r repl prev [] skip = []"
| "sub_from ic r repl prev (c # cs) skip =
     (if 0 < skip then sub_from ic r repl (Some c) cs (skip - 1)
      else (case rmatch ic [R r] prev (c # cs) [] of
              Some (rest, g) \<Rightarrow>
                if length rest < length (c # cs)
                then repl @ sub_from ic r repl (Some c) cs (length (c # cs) - length rest - 1)
                else c # sub_from ic r repl (Some c) cs 0
            | None \<Rightarrow> c # sub_from ic r repl (Some c) cs 0))"

definition re_sub :: "bool \<Rightarrow> rx \<Rightarrow> str \<Rightarrow> str \<Rightarrow> str" where
  "re_sub ic r repl s = sub_from ic r repl None s 0"


section \<open>Amount extractor\<close>

text \<open>
  \<open>float(s)\<close> for a decimal string without sign or exponent and with at most two
  digits after the point, which covers what the patterns capture once the commas are
  removed (digits, optionally a point and two digits) and what \<open>str\<close> prints for such
  a value. The value is kept exactly, in hundredths; \<open>None\<close> is \<open>ValueError\<close>. The
  extractor only compares the value with 50 and takes minima; rounding to binary64 is
  monotone and leaves 50 fixed, so these comparisons are those of the exact values.
\<close>

definition is_digit :: "nat \<Rightarrow> bool" where
  "is_digit c = (48 \<le> c \<and> c \<le> 57)"

fun digits_value :: "nat \<Rightarrow> str \<Rightarrow> nat" where
  "digits_value acc [] = acc"
| "digits_value acc (c # cs) = digits_value (10 * acc + (c - 48)) cs"

definition py_float :: "str \<Rightarrow> nat option" where
  "py_float s =
     (let ip = takeWhile is_digit s; rest = dropWhile is_digit s in
      case rest of
        [] \<Rightarrow> if ip = [] then None else Some (100 * digits_value 0 ip)
      | p # fs \<Rightarrow>
          if p = 46 \<and> list_all is_digit fs \<and> length fs \<le> 2 \<and> (ip \<noteq> [] \<or> fs \<noteq> [])
          then Some (100 * digits_value 0 ip +
                 (case fs of
                    [] \<Rightarrow> 0
                  | [a] \<Rightarrow> 10 * (a - 48)
                  | a # b # _ \<Rightarrow> 10 * (a - 48) + (b - 48)))
          else None)"

text \<open>
  \<open>str(x)\<close> for a float \<open>x\<close> of \<open>n\<close> hundredths: the shortest decimal that reads back as
  \<open>x\<close>, with at least one digit after the point. This is Python's result as long as the
  amount has at most 15 significant digits (below \<open>10^13\<close>); larger values are rounded
  by binary64 and printed with an exponent from \<open>10^16\<close> on.
\<close>

function dec :: "nat \<Rightarrow> str" where
  "dec n = (if n < 10 then [48 + n] else dec (n div 10) @ [48 + n mod 10])"
  by pat_completeness auto
termination
  by (relation "measure id") auto

declare dec.simps [simp del]

definition py_str_float :: "nat \<Rightarrow> str" where
  "py_str_float n =
     dec (n div 100) @ [46] @
     (if n mod 100 = 0 then [48]
      else if n mod 10 = 0 then [48 + (n mod 100) div 10]
      else [48 + (n mod 100) div 10, 48 + n mod 10])"

definition remove_commas :: "str \<Rightarrow> str" where
  "remove_commas s = filter (\<lambda>c. c \<noteq> 44) s"

text \<open>The patterns. \<open>amount_rx\<close> is \<open>[0-9,]+(?:\.[0-9]{2})?\<close>; \<open>birr_am\<close> is the Amharic word for Birr.\<close>

definition d09 :: cclass where
  "d09 = Rng 48 57"

definition amount_rx :: rx where
  "amount_rx = Seq (Plus (AnyOf [d09, Ch 44])) (Opt (seqs [Sym (Ch 46), Sym d09, Sym d09]))"

definition birr_am :: str where
  "birr_am = [0x1265, 0x122D]"

definition currency_rx :: rx where
  "currency_rx = alts [lit (ascii ''ETB''), lit (ascii ''birr''), lit birr_am]"

definition excl_vat_rx :: rx where
  "excl_vat_rx = alts [lit (ascii ''before vat''), lit (ascii ''excluding vat''),
     seqs [lit (ascii ''excl''), Opt (Sym (Ch 46)), lit (ascii '' vat'')]]"

definition settled_pattern :: rx where
  "settled_pattern = seqs [lit (ascii ''settled''), Plus Space, lit (ascii ''amount''),
     Star (AnyOf [Ch 58, Space]), lit (ascii ''ETB''), Star Space, Grp 1 amount_rx]"

definition without_vat_patterns :: "rx list" where
  "without_vat_patterns =
    [seqs [alts [lit (ascii ''subtotal''), lit (ascii ''sub-total''), lit (ascii ''sub total''),
             lit (ascii ''before vat''), lit (ascii ''excluding vat''),
             seqs [lit (ascii ''excl''), Opt (Sym (Ch 46)), lit (ascii '' vat'')]],
           Star (AnyOf [Ch 58, Space]), Opt currency_rx, Star Space, Grp 1 amount_rx],
     seqs [Opt currency_rx, Star Space, Grp 1 amount_rx, Star Space, excl_vat_rx]]"

definition debited_pattern :: rx where
  "debited_pattern = seqs [lit (ascii ''ETB''), Star Space, Grp 1 amount_rx, Plus Space,
     lit (ascii ''debited'')]"

definition standard_patterns :: "rx list" where
  "standard_patterns =
    [seqs [alts [lit (ascii ''debited''), lit (ascii ''Debited''), lit (ascii ''DEBITED'')],
           LazyStar Dot, lit (ascii ''ETB''), Star Space, Grp 1 amount_rx],
     seqs [alts [lit (ascii ''Amount''), lit (ascii ''amount''), lit (ascii ''AMOUNT'')],
           LazyStar Dot, Opt (alts [lit (ascii ''ETB''), lit (ascii ''birr'')]), Star Space,
           Grp 1 amount_rx],
     seqs [currency_rx, Star Space, Grp 1 amount_rx],
     seqs [Grp 1 amount_rx, Star Space, currency_rx]]"

definition fallback_patterns :: "rx list" where
  "fallback_patterns =
    [seqs [alts [BolM, Sym (Ch 10), Sym Space],
           Grp 1 (seqs [Plus (AnyOf [d09, Ch 44]), lit (ascii ''.00'')]),
           Star Space, lit (ascii ''Birr'')],
     seqs [alts [BolM, Sym (Ch 10), Sym Space],
           Grp 1 (seqs [Plus (AnyOf [d09, Ch 44]), Sym (Ch 46), Sym d09, Sym d09]),
           Star Space, alts [lit (ascii ''Birr''), lit (ascii ''ETB'')]]]"

text \<open>\<open>normalize_amount_lines\<close>: the loop over the lines, joining a label line with a value line.\<close>

definition amount_labels :: "str list" where
  "amount_labels = [ascii ''settled amount'', ascii ''settled'', ascii ''amount paid'',
     ascii ''paid'', ascii ''debited'', ascii ''credited'', ascii ''subtotal'',
     ascii ''sub-total'', ascii ''sub total'', ascii ''total amount'']"

definition value_line_rx :: rx where
  "value_line_rx = seqs [Bol, Plus (AnyOf [d09, Ch 44]), Sym (Ch 46), Sym d09, Sym d09]"

fun normalize_lines :: "str list \<Rightarrow> str list" where
  "normalize_lines [] = []"
| "normalize_lines (l # rest) =
     (let line = py_strip l in
      if line = [] then normalize_lines rest
      else
        let has_amount_label = list_ex (\<lambda>label. contains label (py_lower line)) amount_labels in
        (case rest of
           [] \<Rightarrow> [line]
         | nxt # rest' \<Rightarrow>
             let next_line = py_strip nxt in
             if has_amount_label \<and> next_line \<noteq> [] \<and>
                (prefix (ascii ''ETB'') (py_upper next_line) \<or>
                 re_match False value_line_rx next_line \<noteq> None)
             then (line @ ascii '' '' @ next_line) # normalize_lines rest'
             else line # normalize_lines rest))"

definition normalize_amount_lines :: "str \<Rightarrow> str" where
  "normalize_amount_lines txt = py_join [10] (normalize_lines (split_on 10 txt))"

text \<open>
  The stages of \<open>extract_amount_from_receipt\<close>. A stage gives \<open>Some\<close> when the source
  returns there. \<open>checked_amount\<close> is the body of the \<open>try\<close>: the conversion and the
  threshold.
\<close>

datatype amount_out = NotFound | Captured str | Smallest nat

definition checked_amount :: "rmatch_obj \<Rightarrow> str option" where
  "checked_amount m =
     (let amount_str = remove_commas (group m 1) in
      case py_float amount_str of
        None \<Rightarrow> None
      | Some amount_val \<Rightarrow> if 5000 < amount_val then Some amount_str else None)"

definition settled_stage :: "str \<Rightarrow> str option" where
  "settled_stage search_text =
     (case re_search True settled_pattern search_text of
        None \<Rightarrow> None
      | Some m \<Rightarrow> checked_amount m)"

fun without_vat_stage :: "rx list \<Rightarrow> str \<Rightarrow> str option" where
  "without_vat_stage [] search_text = None"
| "without_vat_stage (pattern # patterns) search_text =
     (case re_search True pattern search_text of
        None \<Rightarrow> without_vat_stage patterns search_text
      | Some m \<Rightarrow>
          (case checked_amount m of
             Some amount_str \<Rightarrow> Some amount_str
           | None \<Rightarrow> without_vat_stage patterns search_text))"

definition debited_stage :: "str \<Rightarrow> str option" where
  "debited_stage search_text =
     (case re_search True debited_pattern search_text of
        None \<Rightarrow> None
      | Some m \<Rightarrow>
          (case checked_amount m of
             None \<Rightarrow> None
           | Some amount_str \<Rightarrow>
               let match_pos = m_start m;
                   preceding_text = slice search_text (match_pos - 50) match_pos in
               if \<not> contains (ascii ''total'') (py_lower preceding_text)
               then Some amount_str else None))"

definition candidate :: "str \<Rightarrow> rmatch_obj \<Rightarrow> nat list" where
  "candidate search_text m =
     (case py_float (remove_commas (group m 1)) of
        None \<Rightarrow> []
      | Some amount_val \<Rightarrow>
          if 5000 < amount_val then
            let match_pos = m_start m;
                context = py_lower (slice search_text (match_pos - 30)
                            (min (length search_text) (match_pos + 100))) in
            if \<not> contains (ascii ''total'') context \<and>
               \<not> contains (ascii ''with commission'') context \<and>
               \<not> contains (ascii ''service charge'') context \<and>
               \<not> contains (ascii ''vat'') context
            then [amount_val] else []
          else [])"

definition all_amounts :: "str \<Rightarrow> nat list" where
  "all_amounts search_text =
     concat (map (\<lambda>pattern. concat (map (candidate search_text)
                                 (re_finditer True pattern search_text)))
               standard_patterns)"

fun py_min :: "nat list \<Rightarrow> nat" where
  "py_min [] = 0"
| "py_min (x # xs) = fold min xs x"

definition search_stages :: "str \<Rightarrow> amount_out" where
  "search_stages search_text =
     (case settled_stage search_text of
        Some amount_str \<Rightarrow> Captured amount_str
      | None \<Rightarrow>
     (case without_vat_stage without_vat_patterns search_text of
        Some amount_str \<Rightarrow> Captured amount_str
      | None \<Rightarrow>
     (case debited_stage search_text of
        Some amount_str \<Rightarrow> Captured amount_str
      | None \<Rightarrow>
     (case all_amounts search_text of
        [] \<Rightarrow> NotFound
      | a # as \<Rightarrow> Smallest (py_min (a # as))))))"

fun fallback_matches :: "rmatch_obj list \<Rightarrow> str option" where
  "fallback_matches [] = None"
| "fallback_matches (m # ms) =
     (case checked_amount m of
        Some amount_str \<Rightarrow> Some amount_str
      | None \<Rightarrow> fallback_matches ms)"

fun fallback_stage :: "rx list \<Rightarrow> str \<Rightarrow> str option" where
  "fallback_stage [] search_text = None"
| "fallback_stage (pattern # patterns) search_text =
     (case fallback_matches (re_finditer True pattern search_text) of
        Some amount_str \<Rightarrow> Some amount_str
      | None \<Rightarrow> fallback_stage patterns search_text)"

text \<open>
  The loop runs over the normalized text and then the original text; the fallback reads
  the loop variable, which is the original text by then. \<open>amount_found\<close> tells which
  kind of value is returned: a captured string as it stands, or the smallest candidate,
  a float that \<open>extract_amount_from_receipt\<close> prints with \<open>str\<close>.
\<close>

definition amount_found :: "str \<Rightarrow> amount_out" where
  "amount_found txt =
     (case search_stages (normalize_amount_lines txt) of
        Captured s \<Rightarrow> Captured s
      | Smallest v \<Rightarrow> Smallest v
      | NotFound \<Rightarrow>
     (case search_stages txt of
        Captured s \<Rightarrow> Captured s
      | Smallest v \<Rightarrow> Smallest v
      | NotFound \<Rightarrow>
     (case fallback_stage fallback_patterns txt of
        Some amount_str \<Rightarrow> Captured amount_str
      | None \<Rightarrow> NotFound)))"

definition extract_amount_from_receipt :: "str \<Rightarrow> str" where
  "extract_amount_from_receipt txt =
     (case amount_found txt of
        NotFound \<Rightarrow> []
      | Captured amount_str \<Rightarrow> amount_str
      | Smallest min_amount \<Rightarrow> py_str_float min_amount)"


text \<open>
  A returned string is above the noise floor when it reads back as a number greater
  than 50 (5000 hundredths).
\<close>

definition above_floor :: "str \<Rightarrow> bool" where
  "above_floor s = (case py_float s of None \<Rightarrow> False | Some v \<Rightarrow> 5000 < v)"


section \<open>House-number extractor\<close>

text \<open>
  The patterns of \<open>extract_house_from_caption\<close>. \<open>digits34\<close> is \<open>(\d{3,4})\<close> and
  \<open>digits12\<close> is \<open>\d{1,2}\<close>. The Amharic words are written by their code points:
  U+1264 U+1275 (house), U+1241 U+1325 U+122D (number).
\<close>

definition digits34 :: rx where
  "digits34 = seqs [Sym Digit, Sym Digit, Sym Digit, Opt (Sym Digit)]"

definition digits12 :: rx where
  "digits12 = seqs [Sym Digit, Opt (Sym Digit)]"

definition colon_or_point :: rx where
  "colon_or_point = Opt (Sym (AnyOf [Ch 58, Ch 46]))"

definition house_pattern_amharic :: rx where
  "house_pattern_amharic = seqs [lit [0x1264, 0x1275], Star Space,
     lit [0x1241, 0x1325, 0x122D], Star Space, colon_or_point, Star Space, Grp 1 digits34]"

definition house_pattern_english :: rx where
  "house_pattern_english = seqs
     [alts [seqs [lit (ascii ''H''), Opt (Sym (Ch 46)), Star Space, lit (ascii ''No''),
                  Opt (Sym (Ch 46))],
            seqs [lit (ascii ''H-No''), Opt (Sym (Ch 46))],
            lit (ascii ''House'')],
      Star Space, colon_or_point, Star Space, Grp 1 digits34]"

definition house_pattern_short :: rx where
  "house_pattern_short = seqs [lit [0x1241, 0x1325], Opt (Sym (Ch 0x122D)), Star Space,
     colon_or_point, Star Space, Grp 1 digits34]"

definition url_rx :: rx where
  "url_rx = seqs [lit (ascii ''http''), Opt (Sym (Ch 115)), lit (ascii ''://''),
     Plus (NoneOf [Space])]"

definition ft_rx :: rx where
  "ft_rx = seqs [lit (ascii ''FT''), Plus Digit, Star Word]"

definition number_rx :: rx where
  "number_rx = Plus d09"

definition keywords_rx :: rx where
  "keywords_rx = alts [lit [0x1241], lit [0x1265, 0x120E, 0x12AD], lit [0x12C8, 0x122D],
     seqs [lit (ascii ''H''), Opt (Sym (Ch 46)), lit (ascii ''No'')], lit (ascii ''Block'')]"

definition slash_pattern :: rx where
  "slash_pattern = seqs [Grp 1 digits12, Star Space, Sym (Ch 47), Star Space, Grp 2 digits12]"

definition space_pattern :: rx where
  "space_pattern = seqs [Grp 1 digits12, Plus Space, Grp 2 digits12]"

text \<open>The filter of the number scan: three or four digits, no year, not ending in 0.\<close>

definition keep_number :: "str \<Rightarrow> bool" where
  "keep_number num =
     ((length num = 3 \<or> length num = 4) \<and>
      \<not> (length num = 4 \<and> (prefix (ascii ''19'') num \<or> prefix (ascii ''20'') num)) \<and>
      \<not> suffix (ascii ''0'') num)"

definition valid_numbers :: "str \<Rightarrow> str list" where
  "valid_numbers caption =
     (let clean_caption = re_sub False ft_rx [] (re_sub False url_rx [] caption);
          all_numbers = re_findall False number_rx clean_caption
      in filter keep_number all_numbers)"

definition has_keywords :: "str \<Rightarrow> bool" where
  "has_keywords caption = (re_search True keywords_rx caption \<noteq> None)"

definition combine_small :: "rx \<Rightarrow> str \<Rightarrow> str option" where
  "combine_small pattern caption =
     (case re_search False pattern caption of
        None \<Rightarrow> None
      | Some m \<Rightarrow>
          let combined = group m 1 @ group m 2 in
          if length combined = 3 \<or> length combined = 4 then Some combined else None)"

definition extract_house_from_caption :: "str \<Rightarrow> str" where
  "extract_house_from_caption caption =
     (if caption = [] then []
      else case re_search False house_pattern_amharic caption of
        Some m \<Rightarrow> group m 1
      | None \<Rightarrow>
     (case re_search True house_pattern_english caption of
        Some m \<Rightarrow> group m 1
      | None \<Rightarrow>
     (case re_search False house_pattern_short caption of
        Some m \<Rightarrow> group m 1
      | None \<Rightarrow>
     (case valid_numbers caption of
        v # vs \<Rightarrow>
          let is_short_text = length caption < 100 in
          if has_keywords caption \<or> is_short_text then v else last (v # vs)
      | [] \<Rightarrow>
     (case combine_small slash_pattern caption of
        Some combined \<Rightarrow> combined
      | None \<Rightarrow>
     (case combine_small space_pattern caption of
        Some combined \<Rightarrow> combined
      | None \<Rightarrow> []))))))"

text \<open>
  Two inputs used as examples below: the caption of the specification (the Amharic
  abbreviation for number, 1108, the month Tahsas with its prefix, 2018), and an OCR
  text of 118 characters without keyword, with an account suffix near the top and the
  unit number at the bottom.
\<close>

definition example_caption :: str where
  "example_caption =
     [0x1241, 32] @ ascii ''1108'' @ [32, 0x12E8, 0x1273, 0x1205, 0x1233, 0x1235, 32] @
     ascii ''2018''"

definition example_ocr_text :: str where
  "example_ocr_text =
     ascii ''CBE receipt'' @ [10] @ ascii ''Account suffix 5319'' @ [10] @
     ascii ''ETB 1,500.00 debited for payment on 12-Jan-2025'' @ [10] @
     ascii ''Thank you for banking with us'' @ [10] @ ascii ''unit 407''"


section \<open>Beneficiary validator\<close>

text \<open>
  \<open>normalize_name\<close>: upper case, the spellings of \<open>AND/OR\<close> and \<open>&\<close> unified, every
  character that is neither a word character nor white space replaced by a space, runs
  of white space collapsed, and the result stripped.
\<close>

definition and_or_rx :: rx where
  "and_or_rx = seqs [lit (ascii ''AND''), Star Space, Sym (Ch 47), Star Space, lit (ascii ''OR'')]"

definition normalize_name :: "str \<Rightarrow> str" where
  "normalize_name name =
     (if name = [] then []
      else
        let name1 = py_upper name;
            name2 = re_sub False and_or_rx (ascii ''AND OR'') name1;
            name3 = re_sub False (Sym (Ch 38)) (ascii ''AND'') name2;
            name4 = re_sub False (Sym (NoneOf [Word, Space])) (ascii '' '') name3;
            name5 = re_sub False (Plus Space) (ascii '' '') name4
        in py_strip name5)"

definition connectors :: "str set" where
  "connectors = set [ascii ''AND'', ascii ''OR'', ascii ''ANDOR'', ascii ''THE'', ascii ''OF'',
     ascii ''TO'', ascii ''A'', ascii ''AN'', ascii ''&'', ascii ''/'']"

definition authorized_tokens :: "str set" where
  "authorized_tokens = set
    [ascii ''SEYOUM'', ascii ''SEYSOA'', ascii ''SEYSOM'', ascii ''SEYSUM'', ascii ''SEYOAM'',
     ascii ''ASSEFA'', ascii ''ASEFA'', ascii ''ASEFFA'',
     ascii ''SENAIT'', ascii ''SENIET'', ascii ''SENAYT'', ascii ''SENAITE'',
     ascii ''DAGNIE'', ascii ''DAGNE'', ascii ''DAGINE'', ascii ''DAGNY'', ascii ''DAGNHE'']"

text \<open>\<open>validate_beneficiary\<close> returns the pair \<open>(is_valid, normalized)\<close>.\<close>

definition validate_beneficiary :: "str \<Rightarrow> bool \<times> str" where
  "validate_beneficiary beneficiary_text =
     (if beneficiary_text = [] then (False, [])
      else
        let normalized = normalize_name beneficiary_text;
            extracted_tokens = set (split_ws normalized);
            extracted_tokens_clean = extracted_tokens - connectors;
            matching_tokens = extracted_tokens_clean \<inter> authorized_tokens
        in if matching_tokens \<noteq> {} then (True, normalized) else (False, normalized))"


section \<open>Extraction orchestrator\<close>

text \<open>
  The extracted payment (the dict \<open>data\<close> of the source), with the fields the ledger
  reconciler reads.
\<close>

record payment =
  house_number :: str
  amount :: str
  transaction_id :: str
  month :: str
  reason :: str
  beneficiary :: str




















section \<open>Ledger\<close>

text \<open>
  The ledger collaborator: a dict from the reason to a worksheet, and a worksheet is a
  grid of cells addressed by row and column. \<open>get_all_values\<close> returns the rows as
  lists of strings; a cell outside the returned rows is empty. The model keeps in a
  cell the text that was written to it (a number is kept as it prints).
\<close>

type_synonym row = "str list"
type_synonym grid = "row list"
type_synonym sheets = "(str \<times> grid) list"

definition pad :: "nat \<Rightarrow> 'a \<Rightarrow> 'a list \<Rightarrow> 'a list" where
  "pad n x xs = xs @ replicate (n - length xs) x"

definition grid_get :: "grid \<Rightarrow> nat \<Rightarrow> nat \<Rightarrow> str" where
  "grid_get g r c = (if r < length g \<and> c < length (g ! r) then g ! r ! c else [])"

definition grid_set :: "grid \<Rightarrow> nat \<Rightarrow> nat \<Rightarrow> str \<Rightarrow> grid" where
  "grid_set g r c v =
     (let g' = pad (Suc r) [] g in g'[r := (pad (Suc c) [] (g' ! r))[c := v]])"

text \<open>
  A cell address in A1 notation: column letters, then the row number from 1. The
  ledger refuses an address that is not of this form (the call raises); letters are
  read in either case.
\<close>

definition is_letter :: "nat \<Rightarrow> bool" where
  "is_letter c = ((65 \<le> c \<and> c \<le> 90) \<or> (97 \<le> c \<and> c \<le> 122))"

fun letters_value :: "nat \<Rightarrow> str \<Rightarrow> nat" where
  "letters_value acc [] = acc"
| "letters_value acc (c # cs) = letters_value (26 * acc + (upper_cp c - 64)) cs"

definition a1_parse :: "str \<Rightarrow> (nat \<times> nat) option" where
  "a1_parse a =
     (let ls = takeWhile is_letter a; ds = dropWhile is_letter a in
      if ls \<noteq> [] \<and> ds \<noteq> [] \<and> list_all is_digit ds \<and> 0 < digits_value 0 ds
      then Some (digits_value 0 ds - 1, letters_value 0 ls - 1)
      else None)"

text \<open>
  \<open>sheet.update(cell, [[value]])\<close> on the worksheet of a reason, in the dict of live
  worksheets: \<open>None\<close> when the call raises.
\<close>

fun sheets_map :: "str \<Rightarrow> (grid \<Rightarrow> grid) \<Rightarrow> sheets \<Rightarrow> sheets" where
  "sheets_map key f [] = []"
| "sheets_map key f ((k, g) # rest) =
     (if k = key then (k, f g) # rest else (k, g) # sheets_map key f rest)"

definition sheet_update :: "sheets \<Rightarrow> str \<Rightarrow> str \<Rightarrow> str \<Rightarrow> sheets option" where
  "sheet_update st key cell v =
     (case a1_parse cell of
        None \<Rightarrow> None
      | Some (r, c) \<Rightarrow> Some (sheets_map key (\<lambda>g. grid_set g r c v) st))"

definition sheet_acell :: "sheets \<Rightarrow> str \<Rightarrow> str \<Rightarrow> str" where
  "sheet_acell st key cell =
     (case (map_of st key, a1_parse cell) of
        (Some g, Some (r, c)) \<Rightarrow> grid_get g r c
      | _ \<Rightarrow> [])"

text \<open>\<open>col_idx_to_letter\<close>, the local function of the source.\<close>

function col_idx_to_letter :: "nat \<Rightarrow> str" where
  "col_idx_to_letter idx =
     (if idx < 26 then [65 + idx]
      else col_idx_to_letter (idx div 26 - 1) @ [65 + idx mod 26])"
  by pat_completeness auto
termination
  by (relation "measure id") (auto simp: div_less_dividend less_imp_diff_less)

declare col_idx_to_letter.simps [simp del]


section \<open>Ledger reconciler\<close>

text \<open>
  \<open>enumerate(all_values[2:], start=3)\<close>: the data rows with their sheet row numbers.
\<close>

definition data_rows :: "grid \<Rightarrow> (nat \<times> row) list" where
  "data_rows g = zip [3 ..< Suc (length g)] (drop 2 g)"

definition is_house_row :: "str \<Rightarrow> row \<Rightarrow> bool" where
  "is_house_row house row = (1 < length row \<and> py_strip (row ! 1) = py_strip house)"

definition find_row :: "grid \<Rightarrow> str \<Rightarrow> nat option" where
  "find_row all_values house =
     map_option fst (find (\<lambda>(idx, row). is_house_row house row) (data_rows all_values))"

text \<open>\<open>range(4, len(row), 2)\<close>: the columns of the reference ids.\<close>

definition ft_columns :: "row \<Rightarrow> nat list" where
  "ft_columns row = filter even [4 ..< length row]"

definition txid_tokens :: "str \<Rightarrow> str list" where
  "txid_tokens cell_value = map py_strip (split_on 44 cell_value)"

definition has_txid :: "str \<Rightarrow> str \<Rightarrow> bool" where
  "has_txid cell txid =
     (let cell_value = py_strip cell in
      cell_value \<noteq> [] \<and> py_strip txid \<in> set (txid_tokens cell_value))"

text \<open>
  The duplicate check: the loops over the sheets, their data rows and the reference-id
  columns stop at the first cell that holds the transaction id; the cells are listed in
  the order of the loops.
\<close>

definition ft_cells :: "sheets \<Rightarrow> (str \<times> nat \<times> str) list" where
  "ft_cells st =
     concat (map (\<lambda>(sheet_reason, g).
       concat (map (\<lambda>(idx, row). map (\<lambda>col_idx. (sheet_reason, idx, row ! col_idx))
                                     (ft_columns row))
                 (data_rows g))) st)"

definition find_duplicate :: "sheets \<Rightarrow> str \<Rightarrow> (str \<times> nat) option" where
  "find_duplicate st txid =
     map_option (\<lambda>(sheet_reason, idx, cell). (sheet_reason, idx))
       (find (\<lambda>(sheet_reason, idx, cell). has_txid cell txid) (ft_cells st))"

text \<open>
  Edit mode, deleting the old entry: in the rows of the house, the first reference-id
  cell that holds the transaction id has its amount cell and itself cleared. The cell
  addresses are built with \<open>chr(65 + col)\<close>; when the ledger refuses one, the exception
  is caught and the scan goes on (what was cleared before stays cleared). The scan
  reads the values fetched from each sheet, the updates go to the live sheets \<open>st\<close>.
  The result is the live sheets and \<open>old_entry_deleted\<close>.
\<close>

fun delete_in_cols :: "sheets \<Rightarrow> str \<Rightarrow> nat \<Rightarrow> row \<Rightarrow> str \<Rightarrow> nat list \<Rightarrow> sheets \<times> bool" where
  "delete_in_cols st sheet_reason idx row txid [] = (st, False)"
| "delete_in_cols st sheet_reason idx row txid (col_idx # cols) =
     (if has_txid (row ! col_idx) txid then
        (case sheet_update st sheet_reason ([65 + (col_idx - 1)] @ dec idx) [] of
           None \<Rightarrow> delete_in_cols st sheet_reason idx row txid cols
         | Some st1 \<Rightarrow>
             (case sheet_update st1 sheet_reason ([65 + col_idx] @ dec idx) [] of
                None \<Rightarrow> delete_in_cols st1 sheet_reason idx row txid cols
              | Some st2 \<Rightarrow> (st2, True)))
      else delete_in_cols st sheet_reason idx row txid cols)"

fun delete_in_rows :: "sheets \<Rightarrow> str \<Rightarrow> str \<Rightarrow> str \<Rightarrow> (nat \<times> row) list \<Rightarrow> sheets \<times> bool" where
  "delete_in_rows st sheet_reason house txid [] = (st, False)"
| "delete_in_rows st sheet_reason house txid ((idx, row) # rows) =
     (if is_house_row house row then
        (case delete_in_cols st sheet_reason idx row txid (ft_columns row) of
           (st1, True) \<Rightarrow> (st1, True)
         | (st1, False) \<Rightarrow> delete_in_rows st1 sheet_reason house txid rows)
      else delete_in_rows st sheet_reason house txid rows)"

fun delete_in_sheets :: "sheets \<Rightarrow> str \<Rightarrow> str \<Rightarrow> sheets \<Rightarrow> sheets \<times> bool" where
  "delete_in_sheets st house txid [] = (st, False)"
| "delete_in_sheets st house txid ((sheet_reason, sheet_values) # rest) =
     (case delete_in_rows st sheet_reason house txid (data_rows sheet_values) of
        (st1, True) \<Rightarrow> (st1, True)
      | (st1, False) \<Rightarrow> delete_in_sheets st1 house txid rest)"

definition delete_old_entry :: "bool \<Rightarrow> sheets \<Rightarrow> str \<Rightarrow> str \<Rightarrow> sheets" where
  "delete_old_entry is_edit_mode st house txid =
     (if is_edit_mode \<and> py_strip txid \<noteq> []
      then fst (delete_in_sheets st house txid st) else st)"

text \<open>
  The value of \<open>amount_value\<close>: \<open>float(data['amount'])\<close>, or the string itself when the
  conversion raises. It is an input of the model, a float being given by the text that
  \<open>str\<close> and an f-string print for it.
\<close>

datatype pyval = PyFloat str | PyStr str

definition fmt :: "pyval \<Rightarrow> str" where
  "fmt v = (case v of PyFloat r \<Rightarrow> r | PyStr s \<Rightarrow> s)"

text \<open>The final values of the two cells.\<close>

definition remaining_amount :: "str \<Rightarrow> str \<Rightarrow> str" where
  "remaining_amount old_amount current_amount =
     (if old_amount \<noteq> [] \<and> current_amount \<noteq> [] then
        py_join (ascii ''+'')
          (map py_strip (filter (\<lambda>p. py_strip p \<noteq> py_strip old_amount)
                           (split_on 43 current_amount)))
      else current_amount)"

definition remaining_txid :: "str \<Rightarrow> str \<Rightarrow> str" where
  "remaining_txid old_txid current_txid =
     (if old_txid \<noteq> [] \<and> current_txid \<noteq> [] then
        py_join (ascii '', '')
          (filter (\<lambda>p. py_strip p \<noteq> py_strip old_txid)
             (map py_strip (split_on 44 current_txid)))
      else current_txid)"

definition append_amount :: "str \<Rightarrow> pyval \<Rightarrow> pyval" where
  "append_amount existing amount_value =
     (if existing \<noteq> [] then PyStr (existing @ ascii ''+'' @ fmt amount_value)
      else amount_value)"

definition append_txid :: "str \<Rightarrow> str \<Rightarrow> str" where
  "append_txid existing txid = (if existing \<noteq> [] then existing @ ascii '', '' @ txid else txid)"

definition final_values ::
  "bool \<Rightarrow> payment option \<Rightarrow> str \<Rightarrow> str \<Rightarrow> pyval \<Rightarrow> str \<Rightarrow> pyval \<times> str" where
  "final_values is_edit_mode last_submission current_amount current_txid amount_value txid =
     (if is_edit_mode then
        (case last_submission of
           Some old \<Rightarrow>
             (append_amount (remaining_amount (amount old) current_amount) amount_value,
              append_txid (remaining_txid (transaction_id old) current_txid) txid)
         | None \<Rightarrow> (amount_value, txid))
      else (append_amount current_amount amount_value, append_txid current_txid txid))"

definition final_amount_for_sheet :: "pyval \<Rightarrow> str" where
  "final_amount_for_sheet final_amount =
     (case final_amount of
        PyStr s \<Rightarrow> if 43 \<in> set s then ascii ''='' @ s else s
      | PyFloat r \<Rightarrow> r)"

text \<open>
  The amount cell is read back from the live sheet with its formula (and the leading
  \<open>=\<close> taken off); when that call raises, the value fetched at the start is used, as
  it always is for the reference-id cell.
\<close>

definition read_current_amount :: "bool \<Rightarrow> sheets \<Rightarrow> str \<Rightarrow> grid \<Rightarrow> nat \<Rightarrow> nat \<Rightarrow> str" where
  "read_current_amount acell_raises st key all_values row_index amount_col_idx =
     (if acell_raises then py_strip (grid_get all_values (row_index - 1) amount_col_idx)
      else
        let v = py_strip (sheet_acell st key (col_idx_to_letter amount_col_idx @ dec row_index))
        in (case v of c # cs \<Rightarrow> if c = 61 then cs else v | [] \<Rightarrow> []))"

text \<open>\<open>xs.index(x)\<close> when \<open>x in xs\<close>, else \<open>None\<close>.\<close>

fun index_of :: "'a \<Rightarrow> 'a list \<Rightarrow> nat option" where
  "index_of x [] = None"
| "index_of x (y # ys) = (if y = x then Some 0 else map_option Suc (index_of x ys))"

datatype outcome =
    ExtractionIncomplete
  | BeneficiaryUnverified
  | NoSheet
  | UnknownHouse
  | UnknownMonth
  | DuplicateTransaction str nat
  | Saved

text \<open>
  The part of \<open>process_buffered_messages\<close> after the extraction: the validations, the
  lookup of row and column, the deletion of the old entry (edit mode), the duplicate
  check (new submissions), and the two writes. The result is what the user is told and
  the sheets afterwards.
\<close>

definition save_payment ::
  "bool \<Rightarrow> bool \<Rightarrow> payment option \<Rightarrow> payment \<Rightarrow> pyval \<Rightarrow> bool \<Rightarrow> sheets \<Rightarrow> outcome \<times> sheets" where
  "save_payment is_edit_mode_arg global_edit_mode last_submission data amount_value
      acell_raises st =
     (let is_edit_mode = (is_edit_mode_arg \<or> global_edit_mode) in
      if amount data = [] then (ExtractionIncomplete, st)
      else if \<not> fst (validate_beneficiary (beneficiary data)) then (BeneficiaryUnverified, st)
      else case map_of st (reason data) of
        None \<Rightarrow> (NoSheet, st)
      | Some all_values \<Rightarrow>
     (case find_row all_values (house_number data) of
        None \<Rightarrow> (UnknownHouse, st)
      | Some row_index \<Rightarrow>
     (case index_of (month data) ETHIOPIAN_MONTHS_LIST of
        None \<Rightarrow> (UnknownMonth, st)
      | Some month_index \<Rightarrow>
          let txid = transaction_id data;
              amount_col_idx = 3 + month_index * 2;
              ftno_col_idx = amount_col_idx + 1;
              st1 = delete_old_entry is_edit_mode st (house_number data) txid
          in
          (case (if \<not> is_edit_mode \<and> py_strip txid \<noteq> [] then find_duplicate st txid
                 else None) of
             Some (duplicate_sheet, duplicate_row) \<Rightarrow>
               (DuplicateTransaction duplicate_sheet duplicate_row, st1)
           | None \<Rightarrow>
               let current_amount = read_current_amount acell_raises st1 (reason data)
                                      all_values row_index amount_col_idx;
                   current_txid = py_strip (grid_get all_values (row_index - 1) ftno_col_idx);
                   (final_amount, final_txid) =
                      final_values is_edit_mode last_submission current_amount current_txid
                        amount_value txid;
                   st2 = sheets_map (reason data)
                           (\<lambda>g. grid_set g (row_index - 1) amount_col_idx
                                  (final_amount_for_sheet final_amount)) st1;
                   st3 = sheets_map (reason data)
                           (\<lambda>g. grid_set g (row_index - 1) ftno_col_idx final_txid) st2
               in (Saved, st3)))))"

text \<open>The cell of a sheet of the ledger, by reason, row and column (from 0).\<close>

definition sheet_cell :: "sheets \<Rightarrow> str \<Rightarrow> nat \<Rightarrow> nat \<Rightarrow> str" where
  "sheet_cell st key r c = (case map_of st key of None \<Rightarrow> [] | Some g \<Rightarrow> grid_get g r c)"



text \<open>
  A ledger used as example: the sheet \<open>water\<close> with its two header rows and the row of
  house 407, whose cells for Meskerem hold the amounts of two submissions, 300 and 500,
  and their transaction ids FT000 and FT111. The edited payment of the scenario:
  house 407, amount 700, the transaction FT111 of the receipt sent before.
\<close>

definition example_sheet :: grid where
  "example_sheet =
     [[ascii ''No'', ascii ''H.No'', ascii ''Name'', ascii ''Meskerem'', []],
      [[], [], [], ascii ''Amount'', ascii ''FT No''],
      [ascii ''1'', ascii ''407'', ascii ''Abebe'', ascii ''=300+500'', ascii ''FT000, FT111'']]"

definition example_ledger :: sheets where
  "example_ledger = [(ascii ''water'', example_sheet)]"

definition edited_payment :: payment where
  "edited_payment = \<lparr>house_number = ascii ''407'', amount = ascii ''700'',
     transaction_id = ascii ''FT111'', month = ascii ''Meskerem'', reason = ascii ''water'',
     beneficiary = ascii ''SEYOUM ASSEFA''\<rparr>"

text \<open>
  The submission recorded before for house 407, the one that is edited: amount 500 with
  the transaction FT111, for Meskerem, in the sheet \<open>water\<close>.
\<close>

definition recorded_submission :: payment where
  "recorded_submission = \<lparr>house_number = ascii ''407'', amount = ascii ''500'',
     transaction_id = ascii ''FT111'', month = ascii ''Meskerem'', reason = ascii ''water'',
     beneficiary = ascii ''SEYOUM ASSEFA''\<rparr>"

text \<open>The example ledger with the two cells of house 407 for Meskerem cleared.\<close>

definition cleared_ledger :: sheets where
  "cleared_ledger = [(ascii ''water'',
     [[ascii ''No'', ascii ''H.No'', ascii ''Name'', ascii ''Meskerem'', []],
      [[], [], [], ascii ''Amount'', ascii ''FT No''],
      [ascii ''1'', ascii ''407'', ascii ''Abebe'', [], []]])]"


section \<open>Patterns that cannot match\<close>

text \<open>
  \<open>stuck ic s r\<close>: every match of the pattern \<open>r\<close> has to consume a character that no
  character of \<open>s\<close> provides, so \<open>r\<close> matches nowhere in a text made of characters of
  \<open>s\<close>. This is a sufficient test, used to show that a search finds nothing.
\<close>

fun stuck :: "bool \<Rightarrow> str \<Rightarrow> rx \<Rightarrow> bool" where
  "stuck ic s (Sym cl) = list_all (\<lambda>c. \<not> cmatch ic cl c) s"
| "stuck ic s (Seq a b) = (stuck ic s a \<or> stuck ic s b)"
| "stuck ic s (Alt a b) = (stuck ic s a \<and> stuck ic s b)"
| "stuck ic s (Grp n a) = stuck ic s a"
| "stuck ic s r = False"

fun stuck_item :: "bool \<Rightarrow> str \<Rightarrow> item \<Rightarrow> bool" where
  "stuck_item ic s (R r) = stuck ic s r"
| "stuck_item ic s (Close n s0) = False"

section \<open>Properties of the calendar converter\<close>



















section \<open>Properties of the amount extractor\<close>

lemmas str_eval = ascii_def py_lower_def lower_cp_def py_upper_def upper_cp_def py_strip_def
  is_space_def slice_def is_digit_def

lemmas rx_eval = Opt_def Plus_def d09_def re_match_def re_search_def re_finditer_def
  re_findall_def re_sub_def group_def is_word_def

lemmas amount_eval = extract_amount_from_receipt_def amount_found_def search_stages_def
  normalize_amount_lines_def amount_labels_def value_line_rx_def settled_stage_def
  checked_amount_def remove_commas_def py_float_def settled_pattern_def amount_rx_def
  without_vat_patterns_def debited_pattern_def debited_stage_def standard_patterns_def
  fallback_patterns_def currency_rx_def excl_vat_rx_def birr_am_def candidate_def
  all_amounts_def py_str_float_def dec.simps

lemma dec_digits: "list_all is_digit (dec n)"
proof (induction n rule: dec.induct)
  case (1 n)
  show ?case
  proof (cases "n < 10")
    case True
    then show ?thesis by (simp add: dec.simps [of n] is_digit_def)
  next
    case False
    have "n mod 10 < 10" by simp
    then have "is_digit (48 + n mod 10)" unfolding is_digit_def by linarith
    with False 1 show ?thesis by (simp add: dec.simps [of n])
  qed
qed

lemma digits_value_snoc:
  "digits_value acc (xs @ [c]) = 10 * digits_value acc xs + (c - 48)"
  by (induction xs arbitrary: acc) simp_all

lemma digits_value_dec: "digits_value 0 (dec n) = n"
proof (induction n rule: dec.induct)
  case (1 n)
  show ?case
  proof (cases "n < 10")
    case True
    then show ?thesis by (simp add: dec.simps [of n])
  next
    case False
    with 1 show ?thesis by (simp add: dec.simps [of n] digits_value_snoc)
  qed
qed

lemma dec_not_empty: "dec n \<noteq> []"
  by (simp add: dec.simps [of n])

lemma takeWhile_digits_point:
  "list_all is_digit ds \<Longrightarrow> takeWhile is_digit (ds @ 46 # fs) = ds"
  by (induction ds) (simp_all add: is_digit_def)

lemma dropWhile_digits_point:
  "list_all is_digit ds \<Longrightarrow> dropWhile is_digit (ds @ 46 # fs) = 46 # fs"
  by (induction ds) (simp_all add: is_digit_def)


lemma py_float_digits_point:
  assumes "list_all is_digit ds" "ds \<noteq> []" "list_all is_digit fs" "length fs \<le> 2"
  shows "py_float (ds @ 46 # fs) =
     Some (100 * digits_value 0 ds +
       (case fs of [] \<Rightarrow> 0 | [a] \<Rightarrow> 10 * (a - 48) | a # b # _ \<Rightarrow> 10 * (a - 48) + (b - 48)))"
  using assms
  by (simp add: py_float_def takeWhile_digits_point dropWhile_digits_point)

lemma py_float_str: "py_float (py_str_float n) = Some n"
proof -
  have mm: "(n mod 100) mod 10 = n mod 10"
    by (simp add: mod_mod_cancel)
  have r: "10 * ((n mod 100) div 10) + n mod 10 = n mod 100"
    using mult_div_mod_eq [of 10 "n mod 100"] mm by simp
  have e: "100 * (n div 100) + (10 * ((n mod 100) div 10) + n mod 10) = n"
    using r by simp
  have d1: "(n mod 100) div 10 < 10"
    by (rule less_mult_imp_div_less) simp
  have d2: "n mod 10 < 10" by simp
  have z: "n mod 100 = 0 \<Longrightarrow> 100 * (n div 100) = n"
    using mult_div_mod_eq [of 100 n] by simp
  have z10: "n mod 10 = 0 \<Longrightarrow> 100 * (n div 100) + 10 * ((n mod 100) div 10) = n"
    using e by simp
  have i1: "is_digit (48 + (n mod 100) div 10)"
    using d1 unfolding is_digit_def by linarith
  have i2: "is_digit (48 + n mod 10)"
    using d2 unfolding is_digit_def by linarith
  show ?thesis
  proof (cases "n mod 100 = 0")
    case True
    have "py_float (dec (n div 100) @ 46 # [48]) = Some (100 * digits_value 0 (dec (n div 100)) + 10 * (48 - 48))"
      by (subst py_float_digits_point) (simp_all add: dec_digits dec_not_empty is_digit_def)
    with True z show ?thesis by (simp add: py_str_float_def digits_value_dec)
  next
    case False
    show ?thesis
    proof (cases "n mod 10 = 0")
      case True
      have "py_float (dec (n div 100) @ 46 # [48 + (n mod 100) div 10]) =
            Some (100 * digits_value 0 (dec (n div 100)) + 10 * (48 + (n mod 100) div 10 - 48))"
        using i1 by (subst py_float_digits_point) (simp_all add: dec_digits dec_not_empty)
      with False True z10 show ?thesis by (simp add: py_str_float_def digits_value_dec)
    next
      case nz: False
      have "py_float (dec (n div 100) @ 46 # [48 + (n mod 100) div 10, 48 + n mod 10]) =
            Some (100 * digits_value 0 (dec (n div 100)) +
                  (10 * (48 + (n mod 100) div 10 - 48) + (48 + n mod 10 - 48)))"
        using i1 i2 by (subst py_float_digits_point) (simp_all add: dec_digits dec_not_empty)
      with False nz e show ?thesis by (simp add: py_str_float_def digits_value_dec)
    qed
  qed
qed
lemma checked_amount_floor: "checked_amount m = Some s \<Longrightarrow> above_floor s"
  by (auto simp: checked_amount_def above_floor_def Let_def split: option.splits if_splits)

lemma settled_stage_floor: "settled_stage t = Some s \<Longrightarrow> above_floor s"
  by (auto simp: settled_stage_def split: option.splits dest: checked_amount_floor)

lemma without_vat_stage_floor: "without_vat_stage ps t = Some s \<Longrightarrow> above_floor s"
  by (induction ps) (auto split: option.splits dest: checked_amount_floor)

lemma debited_stage_floor: "debited_stage t = Some s \<Longrightarrow> above_floor s"
  by (auto simp: debited_stage_def Let_def split: option.splits if_splits
      dest: checked_amount_floor)

lemma candidate_floor: "v \<in> set (candidate t m) \<Longrightarrow> 5000 < v"
  by (auto simp: candidate_def Let_def split: option.splits if_splits)

lemma all_amounts_floor: "v \<in> set (all_amounts t) \<Longrightarrow> 5000 < v"
  by (auto simp: all_amounts_def dest: candidate_floor)

lemma fold_min_in: "fold min xs (x::nat) \<in> set (x # xs)"
proof (induction xs arbitrary: x)
  case Nil
  show ?case by simp
next
  case (Cons y ys)
  have m: "min y x = x \<or> min y x = y" by (simp add: min_def)
  have "fold min ys (min y x) \<in> set (min y x # ys)" by (rule Cons.IH)
  with m show ?case by auto
qed

lemma py_min_in: "py_min (a # as) \<in> set (a # as)"
  using fold_min_in [of as a] by simp

lemma search_stages_captured: "search_stages t = Captured s \<Longrightarrow> above_floor s"
  by (auto simp: search_stages_def split: option.splits list.splits
      dest: settled_stage_floor without_vat_stage_floor debited_stage_floor)

lemma search_stages_smallest: "search_stages t = Smallest v \<Longrightarrow> 5000 < v"
proof -
  assume a: "search_stages t = Smallest v"
  then obtain x xs where l: "all_amounts t = x # xs" and v: "v = py_min (x # xs)"
    by (auto simp: search_stages_def split: option.splits list.splits)
  have "v \<in> set (all_amounts t)" unfolding l v by (rule py_min_in)
  then show ?thesis by (rule all_amounts_floor)
qed

lemma fallback_matches_floor: "fallback_matches ms = Some s \<Longrightarrow> above_floor s"
  by (induction ms) (auto split: option.splits dest: checked_amount_floor)

lemma fallback_stage_floor: "fallback_stage ps t = Some s \<Longrightarrow> above_floor s"
  by (induction ps) (auto split: option.splits dest: fallback_matches_floor)

lemma amount_found_captured: "amount_found t = Captured s \<Longrightarrow> above_floor s"
  by (auto simp: amount_found_def split: amount_out.splits option.splits
      dest: search_stages_captured fallback_stage_floor)

lemma amount_found_smallest: "amount_found t = Smallest v \<Longrightarrow> 5000 < v"
  by (auto simp: amount_found_def split: amount_out.splits option.splits
      dest: search_stages_smallest)


text \<open>
  C7. Whatever the text, a non-empty result of the amount extractor reads back as a
  number greater than 50: every stage (settled amount, without VAT, debited, the
  generic candidates and the standalone fallback) returns a candidate only behind the
  test \<open>amount_val > 50\<close>.
\<close>

theorem extract_amount_noise_floor:
  "extract_amount_from_receipt txt \<noteq> [] \<longrightarrow>
   (\<exists>v. py_float (extract_amount_from_receipt txt) = Some v \<and> 5000 < v)"
proof (cases "amount_found txt")
  case NotFound
  then show ?thesis by (simp add: extract_amount_from_receipt_def)
next
  case (Captured s)
  from amount_found_captured [OF this] Captured show ?thesis
    by (auto simp: extract_amount_from_receipt_def above_floor_def split: option.splits)
next
  case (Smallest v)
  from amount_found_smallest [OF this] Smallest show ?thesis
    by (simp add: extract_amount_from_receipt_def py_float_str)
qed


theorem extract_amount_noise_floor_witness:
  "extract_amount_from_receipt (ascii ''ETB 700'') = ascii ''700.0'' \<and>
   (\<exists>v. py_float (ascii ''700.0'') = Some v \<and> 5000 < v)"
proof -
  have e: "extract_amount_from_receipt (ascii ''ETB 700'') = ascii ''700.0''"
    by (simp add: str_eval rx_eval amount_eval)
  then have "extract_amount_from_receipt (ascii ''ETB 700'') \<noteq> []"
    by (simp add: ascii_def)
  with extract_amount_noise_floor [of "ascii ''ETB 700''"]
  have "\<exists>v. py_float (extract_amount_from_receipt (ascii ''ETB 700'')) = Some v \<and> 5000 < v"
    by blast
  with e show ?thesis by simp
qed

text \<open>
  C3. On the receipt text whose label \<open>Settled Amount\<close> and value \<open>ETB 1,250.00\<close> are on
  two lines, followed by the line \<open>Total with VAT ETB 1,437.50\<close>, the line-joining pass
  joins label and value, and the extractor returns \<open>1250.00\<close>, the settled amount.
\<close>

theorem extract_amount_settled_scenario:
  "normalize_amount_lines (ascii ''Settled Amount'' @ [10] @ ascii ''ETB 1,250.00'' @ [10] @
       ascii ''Total with VAT ETB 1,437.50'') =
     ascii ''Settled Amount ETB 1,250.00'' @ [10] @ ascii ''Total with VAT ETB 1,437.50'' \<and>
   extract_amount_from_receipt (ascii ''Settled Amount'' @ [10] @ ascii ''ETB 1,250.00'' @ [10] @
       ascii ''Total with VAT ETB 1,437.50'') = ascii ''1250.00''"
  by (simp add: str_eval rx_eval amount_eval)

text \<open>
  C9, as stated, fails: the extractor returns \<open>1250.00\<close> on the receipt above, and run
  again on \<open>ETB 1250.00\<close> it returns \<open>1250.0\<close>, the float printed by \<open>str\<close>.
\<close>

theorem extract_amount_rewrap_counterexample:
  "extract_amount_from_receipt (ascii ''Settled Amount ETB 1,250.00'') = ascii ''1250.00'' \<and>
   extract_amount_from_receipt (ascii ''ETB '' @ ascii ''1250.00'') = ascii ''1250.0'' \<and>
   ascii ''1250.0'' \<noteq> ascii ''1250.00''"
  by (simp add: str_eval rx_eval amount_eval)


section \<open>Properties of the house-number extractor\<close>

lemmas house_eval = valid_numbers_def has_keywords_def
  combine_small_def keep_number_def suffix_to_prefix digits34_def digits12_def
  colon_or_point_def house_pattern_amharic_def house_pattern_english_def
  house_pattern_short_def url_rx_def ft_rx_def number_rx_def keywords_rx_def
  slash_pattern_def space_pattern_def example_caption_def example_ocr_text_def

text \<open>
  C8. When none of the three labelled patterns matches and the number scan keeps at
  least one candidate (three or four digits, no year starting with 19 or 20, not ending
  in 0), a text with a keyword or shorter than 100 characters yields the first
  candidate, and a text without keyword and longer than 100 characters yields the last
  one. The caption of the specification falls through to the scan and yields 1108.
\<close>

theorem extract_house_number_scan:
  "(caption \<noteq> [] \<and>
    re_search False house_pattern_amharic caption = None \<and>
    re_search True house_pattern_english caption = None \<and>
    re_search False house_pattern_short caption = None \<and>
    valid_numbers caption = v # vs \<longrightarrow>
      (has_keywords caption \<or> length caption < 100 \<longrightarrow>
         extract_house_from_caption caption = v) \<and>
      (\<not> has_keywords caption \<and> 100 < length caption \<longrightarrow>
         extract_house_from_caption caption = last (v # vs))) \<and>
   re_search False house_pattern_short example_caption = None \<and>
   valid_numbers example_caption = [ascii ''1108''] \<and>
   extract_house_from_caption example_caption = ascii ''1108''"
proof -
  have general: "caption \<noteq> [] \<and>
    re_search False house_pattern_amharic caption = None \<and>
    re_search True house_pattern_english caption = None \<and>
    re_search False house_pattern_short caption = None \<and>
    valid_numbers caption = v # vs \<longrightarrow>
      (has_keywords caption \<or> length caption < 100 \<longrightarrow>
         extract_house_from_caption caption = v) \<and>
      (\<not> has_keywords caption \<and> 100 < length caption \<longrightarrow>
         extract_house_from_caption caption = last (v # vs))"
    by (auto simp: extract_house_from_caption_def Let_def)
  have a: "re_search False house_pattern_short example_caption = None"
    by (simp add: str_eval rx_eval house_eval)
  have b: "valid_numbers example_caption = [ascii ''1108'']"
    by (simp add: str_eval rx_eval house_eval)
  have c: "extract_house_from_caption example_caption = ascii ''1108''"
    by (simp add: extract_house_from_caption_def str_eval rx_eval house_eval)
  from general a b c show ?thesis by blast
qed

theorem extract_house_number_scan_witness:
  "valid_numbers example_ocr_text = [ascii ''5319'', ascii ''407''] \<and>
   \<not> has_keywords example_ocr_text \<and> 100 < length example_ocr_text \<and>
   extract_house_from_caption example_ocr_text = ascii ''407'' \<and>
   has_keywords example_caption \<and> length example_caption < 100 \<and>
   extract_house_from_caption example_caption = ascii ''1108''"
proof -
  have ne: "example_ocr_text \<noteq> []" by (simp add: example_ocr_text_def ascii_def)
  have p1: "re_search False house_pattern_amharic example_ocr_text = None"
    by (simp add: str_eval rx_eval house_eval)
  have p2: "re_search True house_pattern_english example_ocr_text = None"
    by (simp add: str_eval rx_eval house_eval)
  have p3: "re_search False house_pattern_short example_ocr_text = None"
    by (simp add: str_eval rx_eval house_eval)
  have v: "valid_numbers example_ocr_text = [ascii ''5319'', ascii ''407'']"
    by (simp add: str_eval rx_eval house_eval)
  have k: "\<not> has_keywords example_ocr_text"
    by (simp add: str_eval rx_eval house_eval)
  have l: "100 < length example_ocr_text"
    by (simp add: example_ocr_text_def ascii_def)
  have k2: "has_keywords example_caption"
    by (simp add: str_eval rx_eval house_eval)
  have l2: "length example_caption < 100"
    by (simp add: example_caption_def ascii_def)
  note t = extract_house_number_scan
    [of example_ocr_text "ascii ''5319''" "[ascii ''407'']", THEN conjunct1, rule_format]
  have "extract_house_from_caption example_ocr_text = last [ascii ''5319'', ascii ''407'']"
    using t ne p1 p2 p3 v k l by blast
  then have r: "extract_house_from_caption example_ocr_text = ascii ''407''" by simp
  note c = extract_house_number_scan
    [of "[]" "[]" "[]", THEN conjunct2, THEN conjunct2, THEN conjunct2]
  from v k l r k2 l2 c show ?thesis by blast
qed

section \<open>Properties of the beneficiary validator\<close>

lemma authorized_not_connectors: "t \<in> authorized_tokens \<Longrightarrow> t \<notin> connectors"
  by (auto simp: authorized_tokens_def connectors_def ascii_def)

text \<open>
  C5. A beneficiary text whose normalized form has a token of the authorized set is
  valid, whatever other words it contains (no authorized token is a connector word, so
  removing the connectors keeps it); the empty text is invalid. Conversely a text is
  valid only if its normalized form has such a token.
\<close>

theorem validate_beneficiary_single_token:
  "(t \<in> set (split_ws (normalize_name b)) \<and> t \<in> authorized_tokens \<longrightarrow>
      validate_beneficiary b = (True, normalize_name b)) \<and>
   validate_beneficiary [] = (False, []) \<and>
   fst (validate_beneficiary b) =
     (\<exists>t\<in>set (split_ws (normalize_name b)). t \<in> authorized_tokens)"
proof -
  have e: "split_ws (normalize_name []) = []" by (simp add: normalize_name_def)
  show ?thesis
    using authorized_not_connectors e
    by (cases "b = []") (auto simp: validate_beneficiary_def Let_def)
qed

theorem validate_beneficiary_single_token_witness:
  "split_ws (normalize_name (ascii ''Seyoum A. & sons / XYZ-Trading'')) =
     [ascii ''SEYOUM'', ascii ''A'', ascii ''AND'', ascii ''SONS'', ascii ''XYZ'', ascii ''TRADING''] \<and>
   ascii ''SEYOUM'' \<in> authorized_tokens \<and>
   validate_beneficiary (ascii ''Seyoum A. & sons / XYZ-Trading'') =
     (True, ascii ''SEYOUM A AND SONS XYZ TRADING'')"
proof -
  have n: "normalize_name (ascii ''Seyoum A. & sons / XYZ-Trading'') =
           ascii ''SEYOUM A AND SONS XYZ TRADING''"
    by (simp add: normalize_name_def and_or_rx_def str_eval rx_eval)
  have s: "split_ws (ascii ''SEYOUM A AND SONS XYZ TRADING'') =
     [ascii ''SEYOUM'', ascii ''A'', ascii ''AND'', ascii ''SONS'', ascii ''XYZ'', ascii ''TRADING'']"
    by (simp add: str_eval)
  have a: "ascii ''SEYOUM'' \<in> authorized_tokens"
    by (simp add: authorized_tokens_def)
  have m: "ascii ''SEYOUM'' \<in> set (split_ws (normalize_name (ascii ''Seyoum A. & sons / XYZ-Trading'')))"
    unfolding n s by simp
  note t = validate_beneficiary_single_token
    [of "ascii ''SEYOUM''" "ascii ''Seyoum A. & sons / XYZ-Trading''", THEN conjunct1, rule_format]
  from t m a have "validate_beneficiary (ascii ''Seyoum A. & sons / XYZ-Trading'') =
     (True, normalize_name (ascii ''Seyoum A. & sons / XYZ-Trading''))" by blast
  with n s a show ?thesis by simp
qed

section \<open>Properties of the extraction orchestrator\<close>











section \<open>Properties of the ledger reconciler\<close>

lemma length_pad: "length (pad n x xs) = max n (length xs)"
  by (simp add: pad_def)

lemma nth_pad:
  "i < max n (length xs) \<Longrightarrow> pad n x xs ! i = (if i < length xs then xs ! i else x)"
  by (auto simp: pad_def nth_append)

lemma grid_set_row:
  "grid_set g r c v ! r = (pad (Suc c) [] (if r < length g then g ! r else []))[c := v]"
  by (auto simp: grid_set_def Let_def length_pad nth_pad)

lemma grid_set_length: "r < length (grid_set g r c v)"
  by (simp add: grid_set_def Let_def length_pad)

lemma grid_get_set_same: "grid_get (grid_set g r c v) r c = v"
  by (auto simp: grid_get_def grid_set_length grid_set_row length_pad)

lemma grid_get_set_other_col:
  assumes "c' \<noteq> c"
  shows "grid_get (grid_set g r c v) r c' = grid_get g r c'"
proof (cases "r < length g")
  case True
  with assms show ?thesis
    by (auto simp: grid_get_def grid_set_length grid_set_row length_pad nth_pad)
next
  case False
  with assms show ?thesis
    by (auto simp: grid_get_def grid_set_length grid_set_row length_pad nth_pad)
qed

lemma map_of_sheets_map:
  "map_of (sheets_map key f st) key = map_option f (map_of st key)"
  by (induction st) auto

lemma map_of_sheets_map_None:
  "(map_of (sheets_map key f st) k = None) = (map_of st k = None)"
  by (induction st) (auto split: if_splits)

lemma sheet_cell_written:
  "map_of st key \<noteq> None \<Longrightarrow>
   sheet_cell (sheets_map key (\<lambda>g. grid_set g r c v) st) key r c = v"
  by (auto simp: sheet_cell_def map_of_sheets_map grid_get_set_same)

lemma sheet_cell_written_other:
  "c' \<noteq> c \<Longrightarrow>
   sheet_cell (sheets_map key (\<lambda>g. grid_set g r c v) st) key r c' = sheet_cell st key r c'"
  by (cases "map_of st key") (auto simp: sheet_cell_def map_of_sheets_map grid_get_set_other_col)


lemma sheet_update_keys:
  "sheet_update st key cell v = Some st' \<Longrightarrow> (map_of st' k = None) = (map_of st k = None)"
  by (auto simp: sheet_update_def map_of_sheets_map_None split: option.splits)

lemma delete_in_cols_keys:
  "(map_of (fst (delete_in_cols st key idx row txid cols)) k = None) = (map_of st k = None)"
proof (induction cols arbitrary: st)
  case Nil
  show ?case by simp
next
  case (Cons col cols)
  show ?case
    by (auto simp: Cons.IH split: option.splits dest: sheet_update_keys)
qed

lemma delete_in_rows_keys:
  "(map_of (fst (delete_in_rows st key house txid rows)) k = None) = (map_of st k = None)"
proof (induction rows arbitrary: st)
  case Nil
  show ?case by simp
next
  case (Cons ir rows)
  obtain idx row where ir: "ir = (idx, row)" by (cases ir)
  obtain st1 b where d: "delete_in_cols st key idx row txid (ft_columns row) = (st1, b)"
    by (cases "delete_in_cols st key idx row txid (ft_columns row)")
  have k1: "(map_of st1 k = None) = (map_of st k = None)"
    using delete_in_cols_keys [of st key idx row txid "ft_columns row" k] d by simp
  show ?case
    unfolding ir using d k1 by (cases b) (simp_all add: Cons.IH)
qed

lemma delete_in_sheets_keys:
  "(map_of (fst (delete_in_sheets st house txid vs)) k = None) = (map_of st k = None)"
proof (induction vs arbitrary: st)
  case Nil
  show ?case by simp
next
  case (Cons kg vs)
  obtain key g where kg: "kg = (key, g)" by (cases kg)
  obtain st1 b where d: "delete_in_rows st key house txid (data_rows g) = (st1, b)"
    by (cases "delete_in_rows st key house txid (data_rows g)")
  have k1: "(map_of st1 k = None) = (map_of st k = None)"
    using delete_in_rows_keys [of st key house txid "data_rows g" k] d by simp
  show ?case
    unfolding kg using d k1 by (cases b) (simp_all add: Cons.IH)
qed

lemma delete_old_entry_keys:
  "(map_of (delete_old_entry e st house txid) k = None) = (map_of st k = None)"
  by (simp add: delete_old_entry_def delete_in_sheets_keys)

lemma delete_old_entry_new: "delete_old_entry False st house txid = st"
  by (simp add: delete_old_entry_def)

lemma save_payment_saved:
  assumes "amount data \<noteq> []" "fst (validate_beneficiary (beneficiary data))"
    and "map_of st (reason data) = Some g"
    and "find_row g (house_number data) = Some row_index"
    and "index_of (month data) ETHIOPIAN_MONTHS_LIST = Some mi"
    and "(arg \<or> glob) \<or> py_strip (transaction_id data) = [] \<or>
         find_duplicate st (transaction_id data) = None"
  shows "save_payment arg glob last_submission data av ar st =
    (let st1 = delete_old_entry (arg \<or> glob) st (house_number data) (transaction_id data);
         fv = final_values (arg \<or> glob) last_submission
                (read_current_amount ar st1 (reason data) g row_index (3 + mi * 2))
                (py_strip (grid_get g (row_index - 1) (3 + mi * 2 + 1))) av (transaction_id data)
     in (Saved,
         sheets_map (reason data) (\<lambda>g. grid_set g (row_index - 1) (3 + mi * 2 + 1) (snd fv))
           (sheets_map (reason data)
              (\<lambda>g. grid_set g (row_index - 1) (3 + mi * 2) (final_amount_for_sheet (fst fv)))
              st1)))"
  using assms unfolding save_payment_def
  by (auto simp: Let_def split: prod.splits)


lemma saved_cells:
  assumes "map_of st1 key \<noteq> None"
  shows "sheet_cell (sheets_map key (\<lambda>g. grid_set g r (c + 1) t)
            (sheets_map key (\<lambda>g. grid_set g r c a) st1)) key r c = a"
    and "sheet_cell (sheets_map key (\<lambda>g. grid_set g r (c + 1) t)
            (sheets_map key (\<lambda>g. grid_set g r c a) st1)) key r (c + 1) = t"
proof -
  have k: "map_of (sheets_map key (\<lambda>g. grid_set g r c a) st1) key \<noteq> None"
    using assms by (simp add: map_of_sheets_map_None)
  show "sheet_cell (sheets_map key (\<lambda>g. grid_set g r (c + 1) t)
            (sheets_map key (\<lambda>g. grid_set g r c a) st1)) key r (c + 1) = t"
    by (rule sheet_cell_written [OF k])
  have "sheet_cell (sheets_map key (\<lambda>g. grid_set g r (c + 1) t)
            (sheets_map key (\<lambda>g. grid_set g r c a) st1)) key r c =
        sheet_cell (sheets_map key (\<lambda>g. grid_set g r c a) st1) key r c"
    by (rule sheet_cell_written_other) simp
  also have "\<dots> = a" by (rule sheet_cell_written [OF assms])
  finally show "sheet_cell (sheets_map key (\<lambda>g. grid_set g r (c + 1) t)
            (sheets_map key (\<lambda>g. grid_set g r c a) st1)) key r c = a" .
qed

lemma final_amount_appended:
  "final_amount_for_sheet (append_amount cur av) =
     (if cur \<noteq> [] then ascii ''='' @ cur @ ascii ''+'' @ fmt av else final_amount_for_sheet av)"
  by (simp add: final_amount_for_sheet_def append_amount_def ascii_def)

lemma save_edit_no_previous:
  assumes "amount data \<noteq> []" "fst (validate_beneficiary (beneficiary data))"
    and "map_of st (reason data) = Some g"
    and "find_row g (house_number data) = Some row_index"
    and "index_of (month data) ETHIOPIAN_MONTHS_LIST = Some mi"
    and "arg \<or> glob"
  shows "fst (save_payment arg glob None data av ar st) = Saved"
    and "sheet_cell (snd (save_payment arg glob None data av ar st)) (reason data)
           (row_index - 1) (3 + mi * 2) = final_amount_for_sheet av"
    and "sheet_cell (snd (save_payment arg glob None data av ar st)) (reason data)
           (row_index - 1) (3 + mi * 2 + 1) = transaction_id data"
proof -
  let ?st1 = "delete_old_entry (arg \<or> glob) st (house_number data) (transaction_id data)"
  have k: "map_of ?st1 (reason data) \<noteq> None"
    using assms(3) by (simp add: delete_old_entry_keys)
  have fv: "\<And>ca ct. final_values (arg \<or> glob) None ca ct av (transaction_id data) =
        (av, transaction_id data)"
    using assms(6) by (simp add: final_values_def)
  have s: "save_payment arg glob None data av ar st =
      (Saved,
       sheets_map (reason data) (\<lambda>g. grid_set g (row_index - 1) (3 + mi * 2 + 1) (transaction_id data))
         (sheets_map (reason data)
            (\<lambda>g. grid_set g (row_index - 1) (3 + mi * 2) (final_amount_for_sheet av)) ?st1))"
    using assms
    by (subst save_payment_saved [of data st g row_index mi arg glob]) (simp_all add: Let_def final_values_def)
  show "fst (save_payment arg glob None data av ar st) = Saved" by (simp add: s)
  show "sheet_cell (snd (save_payment arg glob None data av ar st)) (reason data)
           (row_index - 1) (3 + mi * 2) = final_amount_for_sheet av"
    unfolding s snd_conv by (rule saved_cells(1) [OF k])
  show "sheet_cell (snd (save_payment arg glob None data av ar st)) (reason data)
           (row_index - 1) (3 + mi * 2 + 1) = transaction_id data"
    unfolding s snd_conv by (rule saved_cells(2) [OF k])
qed

lemma save_new_appends:
  assumes "amount data \<noteq> []" "fst (validate_beneficiary (beneficiary data))"
    and "map_of st (reason data) = Some g"
    and "find_row g (house_number data) = Some row_index"
    and "index_of (month data) ETHIOPIAN_MONTHS_LIST = Some mi"
    and "py_strip (transaction_id data) = [] \<or> find_duplicate st (transaction_id data) = None"
  shows "fst (save_payment False False last_submission data av ar st) = Saved"
    and "sheet_cell (snd (save_payment False False last_submission data av ar st)) (reason data)
           (row_index - 1) (3 + mi * 2) =
         final_amount_for_sheet (append_amount
           (read_current_amount ar st (reason data) g row_index (3 + mi * 2)) av)"
    and "sheet_cell (snd (save_payment False False last_submission data av ar st)) (reason data)
           (row_index - 1) (3 + mi * 2 + 1) =
         append_txid (py_strip (grid_get g (row_index - 1) (3 + mi * 2 + 1))) (transaction_id data)"
proof -
  have k: "map_of st (reason data) \<noteq> None" using assms(3) by simp
  let ?ca = "read_current_amount ar st (reason data) g row_index (3 + mi * 2)"
  let ?ct = "py_strip (grid_get g (row_index - 1) (3 + mi * 2 + 1))"
  have fv: "final_values False last_submission ?ca ?ct av (transaction_id data) =
        (append_amount ?ca av, append_txid ?ct (transaction_id data))"
    by (simp add: final_values_def)
  have s: "save_payment False False last_submission data av ar st =
      (Saved,
       sheets_map (reason data)
         (\<lambda>g. grid_set g (row_index - 1) (3 + mi * 2 + 1) (append_txid ?ct (transaction_id data)))
         (sheets_map (reason data)
            (\<lambda>g. grid_set g (row_index - 1) (3 + mi * 2)
                   (final_amount_for_sheet (append_amount ?ca av))) st))"
    using assms
    by (subst save_payment_saved [of data st g row_index mi False False])
       (simp_all add: Let_def final_values_def delete_old_entry_new)
  show "fst (save_payment False False last_submission data av ar st) = Saved" by (simp add: s)
  show "sheet_cell (snd (save_payment False False last_submission data av ar st)) (reason data)
           (row_index - 1) (3 + mi * 2) = final_amount_for_sheet (append_amount ?ca av)"
    unfolding s snd_conv by (rule saved_cells(1) [OF k])
  show "sheet_cell (snd (save_payment False False last_submission data av ar st)) (reason data)
           (row_index - 1) (3 + mi * 2 + 1) = append_txid ?ct (transaction_id data)"
    unfolding s snd_conv by (rule saved_cells(2) [OF k])
qed


text \<open>
  C10. For a submission that passes the checks (amount, beneficiary, sheet, house row,
  month): in edit mode with no previous submission stored, the payment is saved and the
  two target cells hold exactly the new amount and the new transaction id, whatever
  they held before; a new submission without duplicate is saved with the new amount
  appended to a non-empty amount cell after \<open>+\<close> (the cell becoming a formula) and the
  new transaction id appended to a non-empty reference cell after a comma and a space.
\<close>

theorem edit_without_previous_overwrites:
  "(amount data \<noteq> [] \<and> fst (validate_beneficiary (beneficiary data)) \<and>
    map_of st (reason data) = Some g \<and> find_row g (house_number data) = Some row_index \<and>
    index_of (month data) ETHIOPIAN_MONTHS_LIST = Some mi \<and> (arg \<or> glob) \<longrightarrow>
      fst (save_payment arg glob None data av ar st) = Saved \<and>
      sheet_cell (snd (save_payment arg glob None data av ar st)) (reason data)
        (row_index - 1) (3 + mi * 2) = final_amount_for_sheet av \<and>
      sheet_cell (snd (save_payment arg glob None data av ar st)) (reason data)
        (row_index - 1) (3 + mi * 2 + 1) = transaction_id data) \<and>
   (amount data \<noteq> [] \<and> fst (validate_beneficiary (beneficiary data)) \<and>
    map_of st (reason data) = Some g \<and> find_row g (house_number data) = Some row_index \<and>
    index_of (month data) ETHIOPIAN_MONTHS_LIST = Some mi \<and>
    (py_strip (transaction_id data) = [] \<or> find_duplicate st (transaction_id data) = None) \<longrightarrow>
      fst (save_payment False False last_submission data av ar st) = Saved \<and>
      sheet_cell (snd (save_payment False False last_submission data av ar st)) (reason data)
        (row_index - 1) (3 + mi * 2) =
        (let current_amount = read_current_amount ar st (reason data) g row_index (3 + mi * 2)
         in if current_amount \<noteq> [] then ascii ''='' @ current_amount @ ascii ''+'' @ fmt av
            else final_amount_for_sheet av) \<and>
      sheet_cell (snd (save_payment False False last_submission data av ar st)) (reason data)
        (row_index - 1) (3 + mi * 2 + 1) =
        (let current_txid = py_strip (grid_get g (row_index - 1) (3 + mi * 2 + 1))
         in if current_txid \<noteq> [] then current_txid @ ascii '', '' @ transaction_id data
            else transaction_id data)) \<and>
   final_amount_for_sheet (PyFloat r) = r"
proof -
  have "final_amount_for_sheet (PyFloat r) = r"
    by (simp add: final_amount_for_sheet_def)
  with save_edit_no_previous [of data st g row_index mi arg glob av ar]
    save_new_appends [of data st g row_index mi last_submission av ar]
  show ?thesis
    by (simp add: final_amount_appended append_txid_def Let_def)
qed

lemma example_beneficiary_valid: "fst (validate_beneficiary (ascii ''SEYOUM ASSEFA''))"
  by (simp add: validate_beneficiary_def normalize_name_def and_or_rx_def authorized_tokens_def
      connectors_def str_eval rx_eval)

lemma example_find_row: "find_row example_sheet (ascii ''407'') = Some 3"
  by (simp add: find_row_def data_rows_def is_house_row_def example_sheet_def str_eval)

lemma example_month_index: "index_of (ascii ''Meskerem'') ETHIOPIAN_MONTHS_LIST = Some 0"
  by (simp add: ETHIOPIAN_MONTHS_LIST_def ascii_def)

lemma example_no_duplicate: "find_duplicate example_ledger (ascii ''FT222'') = None"
  by (simp add: find_duplicate_def ft_cells_def data_rows_def ft_columns_def has_txid_def
      txid_tokens_def example_ledger_def example_sheet_def str_eval)

lemma example_current_amount:
  "read_current_amount False example_ledger (ascii ''water'') example_sheet 3 3 = ascii ''300+500''"
  by (simp add: read_current_amount_def sheet_acell_def a1_parse_def is_letter_def grid_get_def
      col_idx_to_letter.simps dec.simps example_ledger_def example_sheet_def str_eval)

lemma example_current_txid: "py_strip (grid_get example_sheet 2 4) = ascii ''FT000, FT111''"
  by (simp add: grid_get_def example_sheet_def str_eval)

theorem edit_without_previous_overwrites_witness:
  "sheet_cell example_ledger (ascii ''water'') 2 3 = ascii ''=300+500'' \<and>
   sheet_cell example_ledger (ascii ''water'') 2 4 = ascii ''FT000, FT111'' \<and>
   fst (save_payment True False None edited_payment (PyFloat (ascii ''700.0'')) False
          example_ledger) = Saved \<and>
   sheet_cell (snd (save_payment True False None edited_payment (PyFloat (ascii ''700.0'')) False
          example_ledger)) (ascii ''water'') 2 3 = ascii ''700.0'' \<and>
   sheet_cell (snd (save_payment True False None edited_payment (PyFloat (ascii ''700.0'')) False
          example_ledger)) (ascii ''water'') 2 4 = ascii ''FT111'' \<and>
   sheet_cell (snd (save_payment False False None (edited_payment\<lparr>transaction_id := ascii ''FT222''\<rparr>)
          (PyFloat (ascii ''700.0'')) False example_ledger)) (ascii ''water'') 2 3 =
     ascii ''=300+500+700.0'' \<and>
   sheet_cell (snd (save_payment False False None (edited_payment\<lparr>transaction_id := ascii ''FT222''\<rparr>)
          (PyFloat (ascii ''700.0'')) False example_ledger)) (ascii ''water'') 2 4 =
     ascii ''FT000, FT111, FT222''"
proof -
  let ?new = "edited_payment\<lparr>transaction_id := ascii ''FT222''\<rparr>"
  have f: "amount edited_payment = ascii ''700''" "beneficiary edited_payment = ascii ''SEYOUM ASSEFA''"
    "reason edited_payment = ascii ''water''" "house_number edited_payment = ascii ''407''"
    "month edited_payment = ascii ''Meskerem''" "transaction_id edited_payment = ascii ''FT111''"
    by (simp_all add: edited_payment_def)
  have ne: "ascii ''700'' \<noteq> []" by (simp add: ascii_def)
  have m: "map_of example_ledger (ascii ''water'') = Some example_sheet"
    by (simp add: example_ledger_def)
  have c0: "sheet_cell example_ledger (ascii ''water'') 2 3 = ascii ''=300+500''"
    "sheet_cell example_ledger (ascii ''water'') 2 4 = ascii ''FT000, FT111''"
    by (simp_all add: sheet_cell_def m grid_get_def example_sheet_def)
  note e = edit_without_previous_overwrites
    [of edited_payment example_ledger example_sheet 3 0 True False "PyFloat (ascii ''700.0'')"
        False None "ascii ''700.0''", THEN conjunct1, rule_format]
  have e': "fst (save_payment True False None edited_payment (PyFloat (ascii ''700.0'')) False
          example_ledger) = Saved \<and>
   sheet_cell (snd (save_payment True False None edited_payment (PyFloat (ascii ''700.0'')) False
          example_ledger)) (ascii ''water'') 2 3 = ascii ''700.0'' \<and>
   sheet_cell (snd (save_payment True False None edited_payment (PyFloat (ascii ''700.0'')) False
          example_ledger)) (ascii ''water'') 2 4 = ascii ''FT111''"
    using e ne m example_beneficiary_valid example_find_row example_month_index
    by (simp add: f final_amount_for_sheet_def)
  have j: "ascii ''='' @ ascii ''300+500'' @ ascii ''+'' @ fmt (PyFloat (ascii ''700.0'')) =
      ascii ''=300+500+700.0''"
    "ascii ''FT000, FT111'' @ ascii '', '' @ ascii ''FT222'' = ascii ''FT000, FT111, FT222''"
    "ascii ''300+500'' \<noteq> []" "ascii ''FT000, FT111'' \<noteq> []"
    by (simp_all add: fmt_def ascii_def)
  note n = edit_without_previous_overwrites
    [of ?new example_ledger example_sheet 3 0 False False "PyFloat (ascii ''700.0'')"
        False None "[]", THEN conjunct2, THEN conjunct1, rule_format]
  have n': "sheet_cell (snd (save_payment False False None ?new
          (PyFloat (ascii ''700.0'')) False example_ledger)) (ascii ''water'') 2 3 =
     ascii ''=300+500+700.0'' \<and>
   sheet_cell (snd (save_payment False False None ?new
          (PyFloat (ascii ''700.0'')) False example_ledger)) (ascii ''water'') 2 4 =
     ascii ''FT000, FT111, FT222''"
    using n ne m example_beneficiary_valid example_find_row example_month_index
      example_no_duplicate
    by (simp add: f example_current_amount example_current_txid j)
  from c0 e' n' show ?thesis by simp
qed


















lemma example_cell_addresses:
  "a1_parse (68 # dec 3) = Some (2, 3)"
  "a1_parse (69 # dec 3) = Some (2, 4)"
  "a1_parse (col_idx_to_letter 3 @ dec 3) = Some (2, 3)"
  by (simp_all add: a1_parse_def is_letter_def col_idx_to_letter.simps
      dec.simps str_eval)

lemma example_data_rows:
  "data_rows example_sheet =
     [(3, [ascii ''1'', ascii ''407'', ascii ''Abebe'', ascii ''=300+500'', ascii ''FT000, FT111''])]"
  by (simp add: data_rows_def example_sheet_def)

lemma example_house_row:
  "is_house_row (ascii ''407'')
     [ascii ''1'', ascii ''407'', ascii ''Abebe'', ascii ''=300+500'', ascii ''FT000, FT111'']"
  by (simp add: is_house_row_def str_eval)

lemma example_ft_columns:
  "ft_columns [ascii ''1'', ascii ''407'', ascii ''Abebe'', ascii ''=300+500'', ascii ''FT000, FT111'']
     = [4]"
  by (simp add: ft_columns_def)

lemma example_has_txid: "has_txid (ascii ''FT000, FT111'') (ascii ''FT111'')"
  by (simp add: has_txid_def txid_tokens_def str_eval)

lemma example_cleared:
  "sheets_map (ascii ''water'') (\<lambda>g. grid_set g 2 4 [])
     (sheets_map (ascii ''water'') (\<lambda>g. grid_set g 2 3 []) example_ledger) = cleared_ledger"
  by (simp add: example_ledger_def example_sheet_def cleared_ledger_def grid_set_def pad_def)

lemma example_delete_old_entry:
  "delete_old_entry True example_ledger (ascii ''407'') (ascii ''FT111'') = cleared_ledger"
proof -
  have ne: "py_strip (ascii ''FT111'') \<noteq> []" by (simp add: str_eval)
  have c: "delete_in_cols example_ledger (ascii ''water'') 3
      [ascii ''1'', ascii ''407'', ascii ''Abebe'', ascii ''=300+500'', ascii ''FT000, FT111'']
      (ascii ''FT111'') [4] = (cleared_ledger, True)"
    using example_has_txid
    by (simp add: sheet_update_def example_cell_addresses example_cleared)
  have "delete_in_sheets example_ledger (ascii ''407'') (ascii ''FT111'')
      [(ascii ''water'', example_sheet)] = (cleared_ledger, True)"
    using example_house_row c
    by (simp add: example_data_rows example_ft_columns)
  moreover have "delete_in_sheets example_ledger (ascii ''407'') (ascii ''FT111'') example_ledger =
      delete_in_sheets example_ledger (ascii ''407'') (ascii ''FT111'')
        [(ascii ''water'', example_sheet)]"
    by (simp only: example_ledger_def)
  ultimately have "delete_in_sheets example_ledger (ascii ''407'') (ascii ''FT111'')
      example_ledger = (cleared_ledger, True)"
    by simp
  then show ?thesis using ne by (simp add: delete_old_entry_def)
qed


lemma example_read_cleared:
  "read_current_amount False cleared_ledger (ascii ''water'') example_sheet 3 3 = []"
  by (simp add: read_current_amount_def sheet_acell_def example_cell_addresses grid_get_def
      cleared_ledger_def py_strip_def)

lemma example_remaining:
  "remaining_amount (ascii ''500'') (ascii ''300+500'') = ascii ''300''"
  "remaining_txid (ascii ''FT111'') (ascii ''FT000, FT111'') = ascii ''FT000''"
  by (simp_all add: remaining_amount_def remaining_txid_def str_eval)

lemma example_edit_final_values:
  "final_values True (Some recorded_submission) [] (ascii ''FT000, FT111'')
     (PyFloat (ascii ''700.0'')) (ascii ''FT111'') = (PyFloat (ascii ''700.0''), ascii ''FT000, FT111'')"
proof -
  have "ascii ''FT000'' \<noteq> []" "ascii ''FT000'' @ ascii '', '' @ ascii ''FT111'' = ascii ''FT000, FT111''"
    by (simp_all add: ascii_def)
  moreover have "amount recorded_submission = ascii ''500''"
    "transaction_id recorded_submission = ascii ''FT111''"
    by (simp_all add: recorded_submission_def)
  ultimately show ?thesis
    by (simp add: final_values_def example_remaining append_amount_def append_txid_def
        remaining_amount_def)
qed

text \<open>
  C1. The edit of the scenario: the cells of house 407 for Meskerem hold \<open>=300+500\<close> and
  \<open>FT000, FT111\<close>, the user's recorded submission is 500 with FT111, and the edited
  payment is 700 with the same transaction FT111. Taking out the old term and the old
  token from what the cells hold would leave 300 and FT000, and give \<open>300+700.0\<close>.
  But the old entry is deleted first: as the reference-id cell of the house holds
  FT111, both cells are cleared; the amount is then read back from the cleared cell and
  the reference ids from the values fetched before. The payment is saved with the amount
  cell holding only \<open>700.0\<close>: the term 300 of the other submission is lost, while its
  transaction id FT000 stays.
\<close>

theorem edit_mode_shared_cell_cleared:
  "sheet_cell example_ledger (ascii ''water'') 2 3 = ascii ''=300+500'' \<and>
   sheet_cell example_ledger (ascii ''water'') 2 4 = ascii ''FT000, FT111'' \<and>
   final_values True (Some recorded_submission) (ascii ''300+500'') (ascii ''FT000, FT111'')
     (PyFloat (ascii ''700.0'')) (ascii ''FT111'') =
     (PyStr (ascii ''300+700.0''), ascii ''FT000, FT111'') \<and>
   delete_old_entry True example_ledger (ascii ''407'') (ascii ''FT111'') = cleared_ledger \<and>
   fst (save_payment True False (Some recorded_submission) edited_payment
          (PyFloat (ascii ''700.0'')) False example_ledger) = Saved \<and>
   sheet_cell (snd (save_payment True False (Some recorded_submission) edited_payment
          (PyFloat (ascii ''700.0'')) False example_ledger)) (ascii ''water'') 2 3 = ascii ''700.0'' \<and>
   sheet_cell (snd (save_payment True False (Some recorded_submission) edited_payment
          (PyFloat (ascii ''700.0'')) False example_ledger)) (ascii ''water'') 2 4 =
     ascii ''FT000, FT111''"
proof -
  have f: "amount edited_payment = ascii ''700''" "beneficiary edited_payment = ascii ''SEYOUM ASSEFA''"
    "reason edited_payment = ascii ''water''" "house_number edited_payment = ascii ''407''"
    "month edited_payment = ascii ''Meskerem''" "transaction_id edited_payment = ascii ''FT111''"
    by (simp_all add: edited_payment_def)
  have ne: "ascii ''700'' \<noteq> []" by (simp add: ascii_def)
  have m: "map_of example_ledger (ascii ''water'') = Some example_sheet"
    by (simp add: example_ledger_def)
  have mc: "map_of cleared_ledger (ascii ''water'') \<noteq> None"
    by (simp add: cleared_ledger_def)
  have c0: "sheet_cell example_ledger (ascii ''water'') 2 3 = ascii ''=300+500''"
    "sheet_cell example_ledger (ascii ''water'') 2 4 = ascii ''FT000, FT111''"
    by (simp_all add: sheet_cell_def m grid_get_def example_sheet_def)
  have j: "ascii ''300'' \<noteq> []" "ascii ''FT000'' \<noteq> []"
    "ascii ''300'' @ ascii ''+'' @ ascii ''700.0'' = ascii ''300+700.0''"
    "ascii ''FT000'' @ ascii '', '' @ ascii ''FT111'' = ascii ''FT000, FT111''"
    by (simp_all add: ascii_def)
  have o: "amount recorded_submission = ascii ''500''"
    "transaction_id recorded_submission = ascii ''FT111''"
    by (simp_all add: recorded_submission_def)
  have v: "final_values True (Some recorded_submission) (ascii ''300+500'') (ascii ''FT000, FT111'')
     (PyFloat (ascii ''700.0'')) (ascii ''FT111'') =
     (PyStr (ascii ''300+700.0''), ascii ''FT000, FT111'')"
    by (simp add: final_values_def o example_remaining append_amount_def append_txid_def j
        fmt_def)
  have s: "save_payment True False (Some recorded_submission) edited_payment
          (PyFloat (ascii ''700.0'')) False example_ledger =
      (Saved,
       sheets_map (ascii ''water'') (\<lambda>g. grid_set g 2 (3 + 1) (ascii ''FT000, FT111''))
         (sheets_map (ascii ''water'') (\<lambda>g. grid_set g 2 3 (ascii ''700.0'')) cleared_ledger))"
    using ne m example_beneficiary_valid example_find_row example_month_index
    by (subst save_payment_saved [of edited_payment example_ledger example_sheet 3 0])
      (simp_all add: f example_delete_old_entry example_read_cleared example_current_txid
        example_edit_final_values final_amount_for_sheet_def)
  show ?thesis
    unfolding s fst_conv snd_conv
    using c0 v example_delete_old_entry saved_cells [OF mc, of 2 3]
    by simp
qed

end
